(* ===== verification/Prelude.thy ===== *)
theory Prelude
  imports Main "HOL-Library.Multiset"
begin

text \<open>
  Shared vocabulary of the development: the process environment as a partial map,
  the exceptions the program raises as one datatype, the error monad on
  \<open>py_error + 'a\<close> that sequences module-level statements (an exception stops the
  rest of the statements), and generic lemmas on lists and maps that the component
  theories use. The collection \<open>eval_simps\<close> gathers the rewrite rules that
  evaluate the model on concrete inputs (used by the witnesses).
\<close>

named_theorems eval_simps "rules that evaluate the model on concrete inputs"

section \<open>Environment and exceptions\<close>

text \<open>\<open>os.environ\<close>: variable names to values; an unset variable is \<open>None\<close>.\<close>

type_synonym env = "string \<rightharpoonup> string"

text \<open>
  The exceptions that reach the top of the program. The two \<open>int()\<close> failures and
  the transport failure are all Python \<open>ValueError\<close>s; the transport one carries the
  exact message text built by the f-string of \<open>main\<close>.
\<close>

datatype py_error =
    Int_invalid_literal
      \<comment> \<open>ValueError: invalid literal for int() with base 10\<close>
  | Int_digit_limit nat
      \<comment> \<open>ValueError: Exceeds the limit (4300 digits) for integer string conversion\<close>
  | ValueError string
      \<comment> \<open>ValueError raised by the program itself, with its message\<close>
  | Tool_duplicate string
      \<comment> \<open>registration of a tool name that is already registered\<close>
  | Unknown_tool string
      \<comment> \<open>dispatch of a name that is not registered\<close>
  | Unknown_resource string
      \<comment> \<open>read of a URI that is not registered\<close>
  | Server_failure string
      \<comment> \<open>an exception propagated out of the server's run loop\<close>

fun is_value_error :: "py_error \<Rightarrow> bool" where
  "is_value_error Int_invalid_literal = True"
| "is_value_error (Int_digit_limit _) = True"
| "is_value_error (ValueError _) = True"
| "is_value_error _ = False"

section \<open>The error monad\<close>

text \<open>\<open>err_bind m f\<close>: run \<open>m\<close>; on an exception stop, otherwise continue with \<open>f\<close>.\<close>

definition err_bind :: "py_error + 'a \<Rightarrow> ('a \<Rightarrow> py_error + 'b) \<Rightarrow> py_error + 'b" where
  "err_bind m f = (case m of Inl e \<Rightarrow> Inl e | Inr a \<Rightarrow> f a)"

lemma err_bind_Inl [simp]: "err_bind (Inl e) f = Inl e"
  by (simp add: err_bind_def)

lemma err_bind_Inr [simp]: "err_bind (Inr a) f = f a"
  by (simp add: err_bind_def)

lemma err_bind_eq_Inr:
  "err_bind m f = Inr b \<longleftrightarrow> (\<exists>a. m = Inr a \<and> f a = Inr b)"
  by (cases m) simp_all

lemma err_bind_eq_Inl:
  "err_bind m f = Inl e \<longleftrightarrow> m = Inl e \<or> (\<exists>a. m = Inr a \<and> f a = Inl e)"
  by (cases m) simp_all

section \<open>Characters\<close>

text \<open>
  A character is read as a code point below 256 (Latin-1). \<open>char_of n\<close> on a numeral
  is decided through its low eight bits.
\<close>

lemmas [eval_simps] = char_of_eq_iff

lemma eq_char_of_iff [eval_simps]: "c = char_of n \<longleftrightarrow> take_bit 8 n = of_char c"
  by (subst eq_commute) (rule char_of_eq_iff)

section \<open>Lists\<close>

lemma dropWhile_hd_stop: "xs \<noteq> [] \<Longrightarrow> \<not> P (hd xs) \<Longrightarrow> dropWhile P xs = xs"
  by (cases xs) simp_all

end
