(* ===== verification/Py_Builtins.thy ===== *)
theory Py_Builtins
  imports Prelude
begin

text \<open>
  The Python builtins that \<open>src/bybit_mcp/main.py\<close> applies to its configuration:
  \<open>str.lower\<close> (line 115), \<open>os.getenv(name, default)\<close> (lines 56 and 115) and
  \<open>load_dotenv()\<close> (line 51), which merges a \<open>.env\<close> file into the environment
  without overriding variables that are already set (python-dotenv's default
  \<open>override=False\<close>). Strings are Isabelle strings whose characters are read as
  Latin-1 code points; on those code points CPython's \<open>str.lower\<close> maps exactly the
  upper-case letters A-Z, U+00C0-U+00D6 and U+00D8-U+00DE to the code point 32 above
  and leaves every other character unchanged.
\<close>

section \<open>str.lower\<close>

definition py_is_upper :: "char \<Rightarrow> bool" where
  "py_is_upper c \<longleftrightarrow>
     (let n = of_char c :: nat in
      65 \<le> n \<and> n \<le> 90 \<or> 192 \<le> n \<and> n \<le> 214 \<or> 216 \<le> n \<and> n \<le> 222)"

definition py_lower_char :: "char \<Rightarrow> char" where
  "py_lower_char c = (if py_is_upper c then char_of (of_char c + (32::nat)) else c)"

definition py_lower :: "string \<Rightarrow> string" where
  "py_lower s = map py_lower_char s"

lemmas [eval_simps] = py_is_upper_def py_lower_char_def py_lower_def

lemma of_char_py_lower_char:
  "of_char (py_lower_char c) =
     (if py_is_upper c then of_char c + 32 else (of_char c :: nat))"
proof -
  have "py_is_upper c \<Longrightarrow> of_char c + 32 < (256::nat)"
    by (auto simp: py_is_upper_def Let_def)
  then show ?thesis by (simp add: py_lower_char_def)
qed

lemma upper_range_shift:
  "(65 \<le> n \<and> n \<le> 90 \<or> 192 \<le> n \<and> n \<le> 214 \<or> 216 \<le> n \<and> n \<le> (222::nat)) \<Longrightarrow>
   \<not> (65 \<le> n + 32 \<and> n + 32 \<le> 90 \<or> 192 \<le> n + 32 \<and> n + 32 \<le> 214 \<or> 216 \<le> n + 32 \<and> n + 32 \<le> (222::nat))"
  by arith

lemma py_lower_char_not_upper: "\<not> py_is_upper (py_lower_char c)"
proof (cases "py_is_upper c")
  case True
  then show ?thesis
    using upper_range_shift [of "of_char c"]
    by (simp add: py_is_upper_def of_char_py_lower_char Let_def)
next
  case False
  then show ?thesis by (simp add: py_lower_char_def)
qed

lemma py_lower_char_idem [simp]: "py_lower_char (py_lower_char c) = py_lower_char c"
  using py_lower_char_not_upper [of c] by (simp add: py_lower_char_def [of "py_lower_char c"])

lemma py_lower_char_eq_iff:
  "py_lower_char c = d \<longleftrightarrow>
     (c = d \<and> \<not> py_is_upper c) \<or> (py_is_upper c \<and> of_char d = of_char c + (32::nat))"
proof (cases "py_is_upper c")
  case True
  then have "of_char (py_lower_char c) = of_char c + (32::nat)"
    by (simp add: of_char_py_lower_char)
  then have "py_lower_char c = d \<longleftrightarrow> of_char d = of_char c + (32::nat)"
    by (metis of_char_eq_iff)
  with True show ?thesis by simp
next
  case False
  then show ?thesis by (simp add: py_lower_char_def)
qed

lemma length_py_lower [simp]: "length (py_lower s) = length s"
  by (simp add: py_lower_def)

lemma py_lower_idem [simp]: "py_lower (py_lower s) = py_lower s"
  by (simp add: py_lower_def)

lemma py_lower_append [simp]: "py_lower (s @ t) = py_lower s @ py_lower t"
  by (simp add: py_lower_def)

lemma py_lower_eq_iff_nth:
  "py_lower s = t \<longleftrightarrow> length s = length t \<and> (\<forall>i<length s. py_lower_char (s ! i) = t ! i)"
  by (auto simp: py_lower_def list_eq_iff_nth_eq)

section \<open>os.getenv and load_dotenv\<close>

text \<open>\<open>os.getenv(name, default)\<close>: the value if the variable is set, else the default.
  A variable set to the empty string is set.\<close>

definition os_getenv :: "env \<Rightarrow> string \<Rightarrow> string \<Rightarrow> string" where
  "os_getenv e k d = (case e k of None \<Rightarrow> d | Some v \<Rightarrow> v)"

text \<open>\<open>load_dotenv()\<close>: every entry of the \<open>.env\<close> file whose variable is not yet
  set is added to the environment; variables already set keep their value.\<close>

definition load_dotenv :: "env \<Rightarrow> env \<Rightarrow> env" where
  "load_dotenv dotfile e = dotfile ++ e"

lemmas [eval_simps] = os_getenv_def load_dotenv_def

lemma os_getenv_unset [simp]: "e k = None \<Longrightarrow> os_getenv e k d = d"
  by (simp add: os_getenv_def)

lemma os_getenv_set [simp]: "e k = Some v \<Longrightarrow> os_getenv e k d = v"
  by (simp add: os_getenv_def)

lemma load_dotenv_lookup:
  "load_dotenv dotfile e k = (case e k of None \<Rightarrow> dotfile k | Some v \<Rightarrow> Some v)"
  by (simp add: load_dotenv_def map_add_def)

lemma load_dotenv_keeps_set [simp]: "e k = Some v \<Longrightarrow> load_dotenv dotfile e k = Some v"
  by (simp add: load_dotenv_lookup)

lemma load_dotenv_unset [simp]: "e k = None \<Longrightarrow> load_dotenv dotfile e k = dotfile k"
  by (simp add: load_dotenv_lookup)

lemma load_dotenv_idem: "load_dotenv d (load_dotenv d e) = load_dotenv d e"
  by (rule ext) (simp add: load_dotenv_lookup split: option.splits)

end
