(* ===== verification/Transport.thy ===== *)
theory Transport
  imports Py_Builtins
begin

text \<open>
  The transport selector of \<open>src/bybit_mcp/main.py\<close>: the coroutine \<open>main\<close> (lines
  114-122) reads \<open>MCP_TRANSPORT\<close> (default \<open>stdio\<close>), lower-cases it, logs
  \<open>Starting Bybit MCP Server in <mode> mode\<close> through the \<open>bybit-mcp\<close> logger
  configured by \<open>logging.basicConfig(level=logging.INFO)\<close> (lines 53-54), and then runs
  the stdio loop, the SSE loop, or raises \<open>ValueError\<close>. \<open>main_py\<close> returns the log
  lines and the selected transport or the exception; the server loops themselves are
  outside the program. The first section holds the lemmas that decide when a string
  lower-cases to \<open>stdio\<close> or \<open>sse\<close>.
\<close>

section \<open>Lower-casing onto ASCII letters\<close>

lemma py_lower_char_eq_ascii_lower:
  assumes "97 \<le> (of_char d :: nat)" and "(of_char d :: nat) \<le> 122"
    and "(of_char u :: nat) = of_char d - 32"
  shows "py_lower_char c = d \<longleftrightarrow> c = d \<or> c = u"
proof -
  have d_low: "\<not> py_is_upper d" using assms(1,2) by (simp add: py_is_upper_def Let_def)
  have "65 \<le> (of_char u :: nat) \<and> (of_char u :: nat) \<le> 90" using assms by linarith
  then have up: "py_is_upper u" by (simp add: py_is_upper_def Let_def)
  show ?thesis
  proof
    assume "py_lower_char c = d"
    then have "(c = d \<and> \<not> py_is_upper c) \<or> (py_is_upper c \<and> of_char d = of_char c + (32::nat))"
      by (simp add: py_lower_char_eq_iff)
    then show "c = d \<or> c = u"
    proof
      assume "py_is_upper c \<and> of_char d = of_char c + (32::nat)"
      then have "(of_char c :: nat) = of_char u" using assms(3) by simp
      then show ?thesis by simp
    qed simp
  next
    assume "c = d \<or> c = u"
    then show "py_lower_char c = d"
    proof
      assume "c = d"
      with d_low show ?thesis by (simp add: py_lower_char_def)
    next
      assume c: "c = u"
      have "of_char d = of_char c + (32::nat)" using c assms by simp
      with up c show ?thesis by (simp add: py_lower_char_eq_iff)
    qed
  qed
qed

lemma py_lower_char_ascii [simp]:
  "py_lower_char c = CHR ''s'' \<longleftrightarrow> c = CHR ''s'' \<or> c = CHR ''S''"
  "py_lower_char c = CHR ''t'' \<longleftrightarrow> c = CHR ''t'' \<or> c = CHR ''T''"
  "py_lower_char c = CHR ''d'' \<longleftrightarrow> c = CHR ''d'' \<or> c = CHR ''D''"
  "py_lower_char c = CHR ''i'' \<longleftrightarrow> c = CHR ''i'' \<or> c = CHR ''I''"
  "py_lower_char c = CHR ''o'' \<longleftrightarrow> c = CHR ''o'' \<or> c = CHR ''O''"
  "py_lower_char c = CHR ''e'' \<longleftrightarrow> c = CHR ''e'' \<or> c = CHR ''E''"
  by (rule py_lower_char_eq_ascii_lower; simp)+

lemma py_lower_eq_ascii_word:
  assumes low: "\<forall>d\<in>set w. 97 \<le> (of_char d :: nat) \<and> (of_char d :: nat) \<le> 122"
    and up: "list_all2 (\<lambda>U d. (of_char U :: nat) = of_char d - 32) W w"
  shows "py_lower v = w \<longleftrightarrow> length v = length w \<and> (\<forall>i<length w. v ! i = w ! i \<or> v ! i = W ! i)"
proof -
  have "py_lower_char (v ! i) = w ! i \<longleftrightarrow> v ! i = w ! i \<or> v ! i = W ! i" if "i < length w" for i
  proof (rule py_lower_char_eq_ascii_lower)
    show "97 \<le> (of_char (w ! i) :: nat)" and "(of_char (w ! i) :: nat) \<le> 122"
      using low that by auto
    show "(of_char (W ! i) :: nat) = of_char (w ! i) - 32"
      using up that by (simp add: list_all2_conv_all_nth)
  qed
  then show ?thesis by (auto simp: py_lower_eq_iff_nth)
qed

lemma py_lower_eq_stdio:
  "py_lower v = ''stdio'' \<longleftrightarrow>
   length v = 5 \<and> (\<forall>i<5. v ! i = ''stdio'' ! i \<or> v ! i = ''STDIO'' ! i)"
  by (subst py_lower_eq_ascii_word [where W = "''STDIO''"]) (simp_all add: eval_nat_numeral)

lemma py_lower_eq_sse:
  "py_lower v = ''sse'' \<longleftrightarrow>
   length v = 3 \<and> (\<forall>i<3. v ! i = ''sse'' ! i \<or> v ! i = ''SSE'' ! i)"
  by (subst py_lower_eq_ascii_word [where W = "''SSE''"]) (simp_all add: eval_nat_numeral)

section \<open>main()\<close>

datatype transport = Stdio | Sse

text \<open>Line 115: \<open>os.getenv("MCP_TRANSPORT", "stdio").lower()\<close>.\<close>

definition transport_setting :: "env \<Rightarrow> string" where
  "transport_setting e = py_lower (os_getenv e ''MCP_TRANSPORT'' ''stdio'')"

text \<open>Lines 53-54: \<open>logging.basicConfig(level=logging.INFO)\<close> prints a record of
  logger \<open>bybit-mcp\<close> at level INFO in the default format
  \<open>%(levelname)s:%(name)s:%(message)s\<close>.\<close>

definition log_info :: "string \<Rightarrow> string" where
  "log_info msg = ''INFO:bybit-mcp:'' @ msg"

text \<open>Line 116: the message of \<open>logger.info("Starting Bybit MCP Server in %s mode", transport)\<close>.\<close>

definition startup_message :: "string \<Rightarrow> string" where
  "startup_message t = ''Starting Bybit MCP Server in '' @ t @ '' mode''"

text \<open>Lines 117-122: which server loop is awaited, or the \<open>ValueError\<close> raised.\<close>

definition select_transport :: "string \<Rightarrow> py_error + transport" where
  "select_transport t =
     (if t = ''stdio'' then Inr Stdio
      else if t = ''sse'' then Inr Sse
      else Inl (ValueError (''Unsupported MCP_TRANSPORT mode: '' @ t)))"

text \<open>Lines 114-122: the lines logged, then the transport chosen or the exception.\<close>

definition main_py :: "env \<Rightarrow> string list \<times> (py_error + transport)" where
  "main_py e =
     (let t = transport_setting e in ([log_info (startup_message t)], select_transport t))"

lemmas transport_eval [eval_simps] =
  transport_setting_def log_info_def startup_message_def select_transport_def main_py_def

section \<open>Properties of main()\<close>

text \<open>\<open>main\<close> logs exactly one line, naming the lower-cased setting, before it looks
  at the setting: the line is there on every branch, the error branch included.\<close>

text \<open>
  C1: transport selection is case-insensitive and exact: the raw \<open>MCP_TRANSPORT\<close>
  setting (default \<open>stdio\<close>) selects the stdio loop iff it spells \<open>stdio\<close> in any mix
  of cases, and the SSE loop iff it spells \<open>sse\<close> in any mix of cases.
\<close>

theorem main_transport_selection:
  "(snd (main_py e) = Inr Stdio \<longleftrightarrow>
     (let v = os_getenv e ''MCP_TRANSPORT'' ''stdio''
      in length v = 5 \<and> (\<forall>i<5. v ! i = ''stdio'' ! i \<or> v ! i = ''STDIO'' ! i)))
   \<and> (snd (main_py e) = Inr Sse \<longleftrightarrow>
     (let v = os_getenv e ''MCP_TRANSPORT'' ''stdio''
      in length v = 3 \<and> (\<forall>i<3. v ! i = ''sse'' ! i \<or> v ! i = ''SSE'' ! i)))"
  by (simp add: main_py_def select_transport_def transport_setting_def Let_def
      py_lower_eq_stdio [symmetric] py_lower_eq_sse [symmetric])

theorem main_transport_selection_witness:
  "snd (main_py [''MCP_TRANSPORT'' \<mapsto> ''StDiO'']) = Inr Stdio
   \<and> snd (main_py [''MCP_TRANSPORT'' \<mapsto> ''SSE'']) = Inr Sse
   \<and> snd (main_py Map.empty) = Inr Stdio"
proof -
  have "snd (main_py [''MCP_TRANSPORT'' \<mapsto> ''StDiO'']) = Inr Stdio"
    by (subst conjunct1 [OF main_transport_selection]) (simp add: os_getenv_def eval_nat_numeral less_Suc_eq)
  moreover have "snd (main_py [''MCP_TRANSPORT'' \<mapsto> ''SSE'']) = Inr Sse"
    by (subst conjunct2 [OF main_transport_selection]) (simp add: os_getenv_def eval_nat_numeral less_Suc_eq)
  moreover have "snd (main_py Map.empty) = Inr Stdio"
    by (subst conjunct1 [OF main_transport_selection]) (simp add: os_getenv_def eval_nat_numeral less_Suc_eq)
  ultimately show ?thesis by blast
qed

end
