(* ===== verification/Py_Int.thy ===== *)
theory Py_Int
  imports Prelude
begin

text \<open>
  CPython's \<open>int(x)\<close> on a string, which \<open>src/bybit_mcp/main.py\<close> line 56 applies to
  \<open>MCP_PORT\<close>. The model follows CPython 3.12's \<open>PyLong_FromUnicodeObject\<close>,
  \<open>PyLong_FromString\<close> and \<open>long_from_string_base\<close> (Objects/longobject.c) for base 10:
  skip leading whitespace, read one optional sign, scan digits and single underscores
  between digits, allow only trailing whitespace, reject more than 4300 digits
  (\<open>sys.get_int_max_str_digits()\<close>, the default limit), and reject a string that holds
  a NUL character (the C parser stops there). Whitespace is \<open>Py_ISSPACE\<close> on ASCII and the
  Unicode spaces U+0085 and U+00A0, which CPython first rewrites to a blank.
  Results: the executable parser \<open>py_int\<close> against the declarative grammar
  \<open>int_literal\<close> (refinement, both directions), the roundtrip with the decimal numeral
  \<open>decimal_repr\<close> that \<open>str()\<close> prints, the digit-limit bound, and the classification
  of its errors.
\<close>

section \<open>Character classes\<close>

definition py_int_space :: "char \<Rightarrow> bool" where
  "py_int_space c \<longleftrightarrow> (of_char c :: nat) \<in> set [9, 10, 11, 12, 13, 32, 133, 160]"

definition py_digit_value :: "char \<Rightarrow> nat option" where
  "py_digit_value c =
     (let n = of_char c :: nat in if 48 \<le> n \<and> n \<le> 57 then Some (n - 48) else None)"

definition py_int_max_str_digits :: nat where
  "py_int_max_str_digits = 4300"

section \<open>PyLong_FromString\<close>

definition py_sign :: "string \<Rightarrow> int \<times> string" where
  "py_sign s =
     (case s of
        c # cs \<Rightarrow> if c = CHR ''+'' then (1, cs) else if c = CHR ''-'' then (-1, cs) else (1, s)
      | [] \<Rightarrow> (1, []))"

fun scan_digits :: "bool \<Rightarrow> nat list \<Rightarrow> string \<Rightarrow> (nat list \<times> string) option" where
  "scan_digits prev ds [] = (if prev then None else Some (rev ds, []))"
| "scan_digits prev ds (c # cs) =
     (if c = CHR ''_'' then (if prev then None else scan_digits True ds cs)
      else (case py_digit_value c of
              Some d \<Rightarrow> scan_digits False (d # ds) cs
            | None \<Rightarrow> if prev then None else Some (rev ds, c # cs)))"

definition digits_value :: "nat list \<Rightarrow> nat" where
  "digits_value ds = foldl (\<lambda>acc d. 10 * acc + d) 0 ds"

definition long_from_string_base :: "string \<Rightarrow> py_error + nat" where
  "long_from_string_base u =
     (if u \<noteq> [] \<and> hd u = CHR ''_'' then Inl Int_invalid_literal
      else (case scan_digits False [] u of
              None \<Rightarrow> Inl Int_invalid_literal
            | Some (ds, rest) \<Rightarrow>
                if ds = [] then Inl Int_invalid_literal
                else if \<not> list_all py_int_space rest then Inl Int_invalid_literal
                else if py_int_max_str_digits < length ds
                  then Inl (Int_digit_limit (length ds))
                else Inr (digits_value ds)))"

definition pylong_from_string :: "string \<Rightarrow> py_error + int" where
  "pylong_from_string s =
     (case py_sign (dropWhile py_int_space s) of
        (sg, u) \<Rightarrow> err_bind (long_from_string_base u) (\<lambda>n. Inr (sg * int n)))"

definition py_c_string :: "string \<Rightarrow> string" where
  "py_c_string s = takeWhile (\<lambda>c. c \<noteq> CHR 0x00) s"

definition py_int :: "string \<Rightarrow> py_error + int" where
  "py_int s =
     err_bind (pylong_from_string (py_c_string s))
       (\<lambda>n. if py_c_string s = s then Inr n else Inl Int_invalid_literal)"

lemmas py_int_eval [eval_simps] = py_int_space_def py_digit_value_def py_int_max_str_digits_def
  py_sign_def digits_value_def long_from_string_base_def pylong_from_string_def
  py_c_string_def py_int_def

section \<open>Decimal numerals\<close>

fun nat_digits :: "nat \<Rightarrow> nat list" where
  "nat_digits n = (if n < 10 then [n] else nat_digits (n div 10) @ [n mod 10])"

declare nat_digits.simps [simp del]

definition digit_char :: "nat \<Rightarrow> char" where
  "digit_char d = char_of (48 + d)"

definition decimal_repr :: "int \<Rightarrow> string" where
  "decimal_repr n = (if n < 0 then ''-'' else []) @ map digit_char (nat_digits (nat \<bar>n\<bar>))"

lemma nat_digits_ne [simp]: "nat_digits n \<noteq> []"
  by (subst nat_digits.simps) simp

lemma nat_digits_lt_10: "d \<in> set (nat_digits n) \<Longrightarrow> d < 10"
proof (induction n rule: nat_digits.induct)
  case (1 n)
  then show ?case
    by (cases "n < 10") (auto simp: nat_digits.simps [of n])
qed

lemma digits_value_snoc [simp]: "digits_value (ds @ [d]) = 10 * digits_value ds + d"
  by (simp add: digits_value_def)

lemma digits_value_nat_digits [simp]: "digits_value (nat_digits n) = n"
proof (induction n rule: nat_digits.induct)
  case (1 n)
  then show ?case
    by (cases "n < 10") (simp_all add: nat_digits.simps [of n] digits_value_def)
qed

lemma digits_value_bound: "\<forall>d\<in>set ds. d < 10 \<Longrightarrow> digits_value ds < 10 ^ length ds"
proof (induction ds rule: rev_induct)
  case Nil
  then show ?case by (simp add: digits_value_def)
next
  case (snoc d ds)
  then have "digits_value ds + 1 \<le> 10 ^ length ds" and "d < 10" by auto
  then have "10 * digits_value ds + d < 10 * 10 ^ length ds" by linarith
  then show ?case by simp
qed

lemma py_digit_value_digit_char [simp]: "d < 10 \<Longrightarrow> py_digit_value (digit_char d) = Some d"
  by (simp add: py_digit_value_def digit_char_def)

lemma of_char_digit_char [simp]: "d < 10 \<Longrightarrow> of_char (digit_char d) = (48 + d :: nat)"
  by (simp add: digit_char_def)

lemma digit_char_neq:
  assumes "d < 10" and "\<not> ((48::nat) \<le> of_char c \<and> of_char c \<le> (57::nat))"
  shows "digit_char d \<noteq> c"
proof
  assume "digit_char d = c"
  then have "of_char c = (48 + d :: nat)" using assms(1) by (metis of_char_digit_char)
  with assms show False by simp
qed

lemma digit_char_not_special:
  assumes "d < 10"
  shows "digit_char d \<noteq> CHR ''_''" and "digit_char d \<noteq> CHR ''+''"
    and "digit_char d \<noteq> CHR ''-''" and "digit_char d \<noteq> CHR 0x00"
    and "\<not> py_int_space (digit_char d)"
  using assms by (simp_all add: digit_char_neq py_int_space_def)

lemma scan_digits_digit_chars:
  assumes "\<forall>d\<in>set xs. d < 10"
    and "rest = [] \<or> (py_digit_value (hd rest) = None \<and> hd rest \<noteq> CHR ''_'')"
  shows "scan_digits False ds (map digit_char xs @ rest) = Some (rev ds @ xs, rest)"
  using assms(1)
proof (induction xs arbitrary: ds)
  case Nil
  with assms(2) show ?case by (cases rest) auto
next
  case (Cons x xs)
  then have "x < 10" by simp
  with Cons show ?case by (simp add: digit_char_not_special)
qed

lemma length_nat_digits_le: "m < 10 ^ k \<Longrightarrow> 0 < k \<Longrightarrow> length (nat_digits m) \<le> k"
proof (induction m arbitrary: k rule: nat_digits.induct)
  case (1 m)
  show ?case
  proof (cases "m < 10")
    case True
    with "1.prems" show ?thesis by (simp add: nat_digits.simps [of m])
  next
    case False
    then obtain k' where k: "k = Suc k'" using "1.prems" by (cases k) auto
    have "0 < k'"
    proof (rule ccontr)
      assume "\<not> 0 < k'"
      with k "1.prems"(1) False show False by simp
    qed
    moreover have "m div 10 < 10 ^ k'" using "1.prems"(1) k by (simp add: div_less_iff_less_mult)
    ultimately have "length (nat_digits (m div 10)) \<le> k'" using "1.IH" False by blast
    with False k show ?thesis by (simp add: nat_digits.simps [of m])
  qed
qed

lemma long_from_string_base_digits:
  assumes "ds \<noteq> []" and "\<forall>d\<in>set ds. d < 10"
  shows "long_from_string_base (map digit_char ds) =
           (if py_int_max_str_digits < length ds then Inl (Int_digit_limit (length ds))
            else Inr (digits_value ds))"
proof -
  have scan: "scan_digits False [] (map digit_char ds) = Some (ds, [])"
    using scan_digits_digit_chars [of ds "[]" "[]"] assms(2) by simp
  from assms have "hd (map digit_char ds) \<noteq> CHR ''_''"
    by (cases ds) (simp_all add: digit_char_not_special)
  with scan assms(1) show ?thesis by (simp add: long_from_string_base_def)
qed

lemma decimal_repr_chars:
  "decimal_repr n = (if n < 0 then CHR ''-'' # map digit_char (nat_digits (nat \<bar>n\<bar>))
                     else map digit_char (nat_digits (nat \<bar>n\<bar>)))"
  by (simp add: decimal_repr_def)

lemma nat_digits_length_bound: "m < 10 ^ length (nat_digits m)"
  using digits_value_bound [of "nat_digits m"] nat_digits_lt_10 by auto

lemma py_int_decimal_repr_eq:
  "py_int (decimal_repr n) =
     (let k = length (nat_digits (nat \<bar>n\<bar>)) in
      if py_int_max_str_digits < k then Inl (Int_digit_limit k) else Inr n)"
proof -
  let ?ds = "nat_digits (nat \<bar>n\<bar>)"
  let ?r = "if py_int_max_str_digits < length ?ds then Inl (Int_digit_limit (length ?ds))
            else Inr (nat \<bar>n\<bar>)"
  have lt: "\<forall>d\<in>set ?ds. d < 10" using nat_digits_lt_10 by blast
  have base: "long_from_string_base (map digit_char ?ds) = ?r"
    using long_from_string_base_digits [OF nat_digits_ne lt] by simp
  obtain d ds' where ds: "?ds = d # ds'" by (cases ?ds) auto
  with lt have d: "d < 10" by simp
  have "\<forall>x\<in>set ?ds. digit_char x \<noteq> CHR 0x00"
    using lt digit_char_not_special(4) by blast
  then have "\<forall>c\<in>set (decimal_repr n). c \<noteq> CHR 0x00"
    by (auto simp: decimal_repr_def)
  then have nonul: "py_c_string (decimal_repr n) = decimal_repr n"
    by (simp add: py_c_string_def takeWhile_eq_all_conv)
  have "pylong_from_string (decimal_repr n) = err_bind ?r (\<lambda>m. Inr ((if n < 0 then -1 else 1) * int m))"
  proof (cases "n < 0")
    case True
    then show ?thesis
      using base by (simp add: pylong_from_string_def decimal_repr_chars py_int_space_def py_sign_def)
  next
    case False
    then show ?thesis
      using base d ds by (simp add: pylong_from_string_def decimal_repr_chars py_sign_def
          digit_char_not_special)
  qed
  with nonul show ?thesis by (auto simp: py_int_def Let_def)
qed

text \<open>
  C6: Python's \<open>int(str(n)) == n\<close>: \<open>int()\<close> reads the decimal numeral of every
  integer whose numeral is within the 4300-digit limit back as that integer.
\<close>

theorem py_int_decimal_repr:
  assumes "\<bar>n\<bar> < 10 ^ py_int_max_str_digits"
  shows "py_int (decimal_repr n) = Inr n"
proof -
  have "nat \<bar>n\<bar> < 10 ^ py_int_max_str_digits"
    using assms by (simp add: nat_less_iff)
  then have "length (nat_digits (nat \<bar>n\<bar>)) \<le> py_int_max_str_digits"
    by (rule length_nat_digits_le) (simp add: py_int_max_str_digits_def)
  then show ?thesis by (simp add: py_int_decimal_repr_eq Let_def)
qed

lemma digit_limit_above_8000: "(8000::int) < 10 ^ py_int_max_str_digits"
proof -
  have "(10::int) ^ 4 \<le> 10 ^ py_int_max_str_digits"
    by (rule power_increasing) (simp_all add: py_int_max_str_digits_def)
  then show ?thesis by simp
qed

theorem py_int_decimal_repr_witness:
  "\<bar>-8000::int\<bar> < 10 ^ py_int_max_str_digits \<and> py_int (decimal_repr (-8000)) = Inr (-8000)"
  using py_int_decimal_repr [of "-8000"] digit_limit_above_8000 by simp

text \<open>
  C11: the numeral of an integer with more than 4300 digits is rejected by \<open>int()\<close>
  with the digit-limit \<open>ValueError\<close>, which reports the number of digits.
\<close>

theorem py_int_decimal_repr_limit:
  assumes "10 ^ py_int_max_str_digits \<le> \<bar>n\<bar>"
  shows "py_int (decimal_repr n) = Inl (Int_digit_limit (length (nat_digits (nat \<bar>n\<bar>))))"
proof -
  have "10 ^ py_int_max_str_digits \<le> nat \<bar>n\<bar>"
    using assms by (simp add: le_nat_iff)
  also have "\<dots> < 10 ^ length (nat_digits (nat \<bar>n\<bar>))"
    by (rule nat_digits_length_bound)
  finally have "py_int_max_str_digits < length (nat_digits (nat \<bar>n\<bar>))"
    by (simp add: power_strict_increasing_iff)
  then show ?thesis by (simp add: py_int_decimal_repr_eq Let_def)
qed

theorem py_int_decimal_repr_limit_witness:
  "10 ^ py_int_max_str_digits \<le> \<bar>(10::int) ^ py_int_max_str_digits\<bar>
   \<and> py_int (decimal_repr (10 ^ py_int_max_str_digits))
       = Inl (Int_digit_limit (length (nat_digits (nat \<bar>(10::int) ^ py_int_max_str_digits\<bar>))))"
  using py_int_decimal_repr_limit [of "10 ^ py_int_max_str_digits"] by simp

section \<open>The literal grammar\<close>

definition py_digit_char :: "char \<Rightarrow> bool" where
  "py_digit_char c \<longleftrightarrow> py_digit_value c \<noteq> None"

inductive digitpart :: "string \<Rightarrow> bool" where
  one: "py_digit_char c \<Longrightarrow> digitpart [c]"
| more: "py_digit_char c \<Longrightarrow> digitpart p \<Longrightarrow> digitpart (c # p)"
| sep: "py_digit_char c \<Longrightarrow> digitpart p \<Longrightarrow> digitpart (c # CHR ''_'' # p)"

code_pred digitpart .

definition digit_vals :: "string \<Rightarrow> nat list" where
  "digit_vals p = map (\<lambda>c. the (py_digit_value c)) (filter (\<lambda>c. c \<noteq> CHR ''_'') p)"

definition int_literal :: "string \<Rightarrow> int \<Rightarrow> bool" where
  "int_literal s n \<longleftrightarrow>
     (\<exists>ws1 sg p ws2. s = ws1 @ sg @ p @ ws2
        \<and> list_all py_int_space ws1 \<and> list_all py_int_space ws2
        \<and> sg \<in> {[], ''+'', ''-''} \<and> digitpart p
        \<and> length (digit_vals p) \<le> py_int_max_str_digits
        \<and> n = (if sg = ''-'' then -1 else 1) * int (digits_value (digit_vals p)))"

text \<open>A literal of the grammar whose digit part is longer than the limit.\<close>

definition long_literal :: "string \<Rightarrow> nat \<Rightarrow> bool" where
  "long_literal s k \<longleftrightarrow>
     (\<exists>ws1 sg p ws2. s = ws1 @ sg @ p @ ws2
        \<and> list_all py_int_space ws1 \<and> list_all py_int_space ws2
        \<and> sg \<in> {[], ''+'', ''-''} \<and> digitpart p
        \<and> k = length (digit_vals p) \<and> py_int_max_str_digits < k)"

lemma py_digit_char_not_special:
  assumes "py_digit_char c"
  shows "c \<noteq> CHR ''_''" and "c \<noteq> CHR ''+''" and "c \<noteq> CHR ''-''" and "c \<noteq> CHR 0x00"
    and "\<not> py_int_space c"
  using assms by (auto simp: py_digit_char_def py_digit_value_def py_int_space_def Let_def)

lemma digitpart_hd: "digitpart p \<Longrightarrow> p \<noteq> [] \<and> py_digit_char (hd p)"
  by (induction rule: digitpart.induct) auto

lemma digitpart_chars: "digitpart p \<Longrightarrow> c \<in> set p \<Longrightarrow> py_digit_char c \<or> c = CHR ''_''"
  by (induction rule: digitpart.induct) auto

lemma scan_digits_True_digit:
  "py_digit_char c \<Longrightarrow> scan_digits True ds (c # cs) = scan_digits False ds (c # cs)"
  by (auto simp: py_digit_char_def py_digit_char_not_special(1) [unfolded py_digit_char_def])

definition scan_stop :: "string \<Rightarrow> bool" where
  "scan_stop rest \<longleftrightarrow> rest = [] \<or> (py_digit_value (hd rest) = None \<and> hd rest \<noteq> CHR ''_'')"

lemma digit_vals_Nil [simp]: "digit_vals [] = []"
  by (simp add: digit_vals_def)

lemma digit_vals_Cons_digit [simp]:
  "py_digit_value c = Some d \<Longrightarrow> digit_vals (c # p) = d # digit_vals p"
  by (auto simp: digit_vals_def py_digit_value_def Let_def)

lemma digit_vals_Cons_sep [simp]: "digit_vals (CHR ''_'' # p) = digit_vals p"
  by (simp add: digit_vals_def)

lemma scan_digits_digitpart:
  assumes "digitpart p" and "scan_stop rest"
  shows "scan_digits False ds (p @ rest) = Some (rev ds @ digit_vals p, rest)"
  using assms(1)
proof (induction arbitrary: ds rule: digitpart.induct)
  case (one c)
  then obtain d where d: "py_digit_value c = Some d" by (auto simp: py_digit_char_def)
  with assms(2) show ?case
    by (cases rest) (auto simp: scan_stop_def py_digit_value_def Let_def split: if_splits)
next
  case (more c p)
  then obtain d where d: "py_digit_value c = Some d" by (auto simp: py_digit_char_def)
  with more show ?case by (auto simp: py_digit_value_def Let_def split: if_splits)
next
  case (sep c p)
  then obtain d where d: "py_digit_value c = Some d" by (auto simp: py_digit_char_def)
  from sep.hyps(2) obtain c' p' where p: "p = c' # p'" and c': "py_digit_char c'"
    using digitpart_hd by (cases p) auto
  have "scan_digits False ds (c # CHR ''_'' # p @ rest) = scan_digits True (d # ds) (p @ rest)"
    using d by (auto simp: py_digit_value_def Let_def split: if_splits)
  also have "\<dots> = scan_digits False (d # ds) (p @ rest)"
    using p c' by (simp del: scan_digits.simps add: scan_digits_True_digit)
  finally show ?case using sep.IH d by simp
qed

lemma scan_digits_sound:
  "scan_digits prev ds u = Some (ds', rest) \<Longrightarrow>
     \<exists>p. u = p @ rest \<and> ds' = rev ds @ digit_vals p \<and> scan_stop rest
       \<and> (digitpart p \<or> (\<not> prev \<and> (p = [] \<or> (\<exists>p'. p = CHR ''_'' # p' \<and> digitpart p'))))"
proof (induction prev ds u rule: scan_digits.induct)
  case (1 prev ds)
  then show ?case by (auto simp: scan_stop_def split: if_splits)
next
  case (2 prev ds c cs)
  show ?case
  proof (cases "c = CHR ''_''")
    case True
    with "2.prems" have "\<not> prev" and sc: "scan_digits True ds cs = Some (ds', rest)"
      by (auto split: if_splits)
    from "2.IH"(1) [OF True \<open>\<not> prev\<close> sc] obtain p where
      "cs = p @ rest" "ds' = rev ds @ digit_vals p" "scan_stop rest" "digitpart p"
      by blast
    with True \<open>\<not> prev\<close> show ?thesis by (intro exI [of _ "CHR ''_'' # p"]) auto
  next
    case False
    show ?thesis
    proof (cases "py_digit_value c")
      case None
      with False "2.prems" show ?thesis
        by (intro exI [of _ "[]"]) (auto simp: scan_stop_def digit_vals_def split: if_splits)
    next
      case (Some d)
      with False "2.prems" have sc: "scan_digits False (d # ds) cs = Some (ds', rest)" by simp
      from "2.IH"(2) [OF False Some sc] obtain p where
        p: "cs = p @ rest" "ds' = rev (d # ds) @ digit_vals p" "scan_stop rest"
        and shape: "digitpart p \<or> p = [] \<or> (\<exists>p'. p = CHR ''_'' # p' \<and> digitpart p')"
        by blast
      have dc: "py_digit_char c" using Some by (simp add: py_digit_char_def)
      from shape dc have "digitpart (c # p)"
        by (auto intro: digitpart.intros)
      with p Some show ?thesis by (intro exI [of _ "c # p"]) simp
    qed
  qed
qed

lemma py_sign_split:
  assumes "py_sign t = (sv, u)"
  shows "\<exists>sg. t = sg @ u \<and> sg \<in> {[], ''+'', ''-''} \<and> sv = (if sg = ''-'' then -1 else 1)"
proof (cases "t \<noteq> [] \<and> hd t = CHR ''+''")
  case True
  with assms show ?thesis by (intro exI [of _ "''+''"]) (auto simp: py_sign_def neq_Nil_conv)
next
  case notplus: False
  show ?thesis
  proof (cases "t \<noteq> [] \<and> hd t = CHR ''-''")
    case True
    with assms show ?thesis by (intro exI [of _ "''-''"]) (auto simp: py_sign_def neq_Nil_conv)
  next
    case False
    with notplus assms show ?thesis
      by (intro exI [of _ "[]"]) (auto simp: py_sign_def neq_Nil_conv split: list.splits)
  qed
qed

lemma py_sign_literal:
  assumes "sg \<in> {[], ''+'', ''-''}" and "py_digit_char c"
  shows "py_sign (sg @ c # r) = ((if sg = ''-'' then -1 else 1), c # r)"
proof -
  have "c \<noteq> CHR ''+''" and "c \<noteq> CHR ''-''" using py_digit_char_not_special [OF assms(2)] by auto
  with assms(1) show ?thesis by (auto simp: py_sign_def)
qed

lemma py_int_space_stops: "py_int_space c \<Longrightarrow> py_digit_value c = None \<and> c \<noteq> CHR ''_''"
  by (auto simp: py_int_space_def py_digit_value_def)

text \<open>What \<open>long_from_string_base\<close> returns for digits followed by whitespace: the
  digit-limit error when there are more than 4300 digits, the value otherwise.\<close>

definition limit_result :: "string \<Rightarrow> (nat \<Rightarrow> 'a) \<Rightarrow> py_error + 'a" where
  "limit_result p f =
     (if py_int_max_str_digits < length (digit_vals p)
      then Inl (Int_digit_limit (length (digit_vals p)))
      else Inr (f (digits_value (digit_vals p))))"

lemma long_from_string_base_digitpart:
  assumes "digitpart p" and "list_all py_int_space ws"
  shows "long_from_string_base (p @ ws) = limit_result p id"
proof -
  obtain c p' where p: "p = c # p'" and c: "py_digit_char c"
    using digitpart_hd [OF assms(1)] by (cases p) auto
  have "scan_stop ws"
    using assms(2) py_int_space_stops by (cases ws) (auto simp: scan_stop_def)
  then have scan: "scan_digits False [] (p @ ws) = Some (digit_vals p, ws)"
    using scan_digits_digitpart [OF assms(1)] by simp
  from c obtain d where "py_digit_value c = Some d" by (auto simp: py_digit_char_def)
  then have "digit_vals p \<noteq> []" using p by simp
  with scan assms(2) p py_digit_char_not_special(1) [OF c] show ?thesis
    by (simp add: long_from_string_base_def limit_result_def)
qed

lemma long_from_string_base_ok:
  assumes "long_from_string_base u \<noteq> Inl Int_invalid_literal"
  shows "\<exists>p ws. u = p @ ws \<and> digitpart p \<and> list_all py_int_space ws
           \<and> long_from_string_base u = limit_result p id"
proof -
  from assms obtain ds rest where
    nu: "\<not> (u \<noteq> [] \<and> hd u = CHR ''_'')" and sc: "scan_digits False [] u = Some (ds, rest)"
    and ne: "ds \<noteq> []" and ws: "list_all py_int_space rest"
    by (auto simp: long_from_string_base_def split: if_splits option.splits)
  from scan_digits_sound [OF sc] obtain p where
    u: "u = p @ rest" and ds: "ds = digit_vals p"
    and shape: "digitpart p \<or> p = [] \<or> (\<exists>p'. p = CHR ''_'' # p' \<and> digitpart p')"
    by auto
  from shape have lit: "digitpart p"
  proof (elim disjE exE conjE)
    assume "p = []"
    with ds ne show ?thesis by simp
  next
    fix p' assume "p = CHR ''_'' # p'"
    with u nu show ?thesis by simp
  qed
  with u ws long_from_string_base_digitpart [OF lit ws] show ?thesis by blast
qed

text \<open>\<open>PyLong_FromString\<close> on a literal (whitespace, sign, digit part, whitespace), and
  conversely every string it does not reject as an invalid literal is one.\<close>

lemma pylong_from_literal:
  assumes "list_all py_int_space ws1" and "list_all py_int_space ws2"
    and "sg \<in> {[], ''+'', ''-''}" and "digitpart p"
  shows "pylong_from_string (ws1 @ sg @ p @ ws2) =
           limit_result p (\<lambda>m. (if sg = ''-'' then -1 else 1) * int m)"
proof -
  obtain c p' where p: "p = c # p'" and c: "py_digit_char c"
    using digitpart_hd [OF assms(4)] by (cases p) auto
  have "\<not> py_int_space (hd (sg @ p @ ws2))"
    using assms(3) p py_digit_char_not_special(5) [OF c] by (auto simp: py_int_space_def)
  then have "dropWhile py_int_space (sg @ p @ ws2) = sg @ p @ ws2"
    using p by (intro dropWhile_hd_stop) simp_all
  then have drop: "dropWhile py_int_space (ws1 @ sg @ p @ ws2) = sg @ p @ ws2"
    using assms(1) by (simp add: dropWhile_append2 list_all_iff)
  have "py_sign (sg @ p @ ws2) = ((if sg = ''-'' then -1 else 1), p @ ws2)"
    using py_sign_literal [OF assms(3) c, of "p' @ ws2"] p by simp
  with drop long_from_string_base_digitpart [OF assms(4,2)] show ?thesis
    by (simp add: pylong_from_string_def limit_result_def)
qed

lemma pylong_from_string_ok:
  assumes "pylong_from_string t \<noteq> Inl Int_invalid_literal"
  shows "\<exists>ws1 sg p ws2. t = ws1 @ sg @ p @ ws2
           \<and> list_all py_int_space ws1 \<and> list_all py_int_space ws2
           \<and> sg \<in> {[], ''+'', ''-''} \<and> digitpart p"
proof -
  obtain sv u where sv: "py_sign (dropWhile py_int_space t) = (sv, u)" by fastforce
  with assms have "long_from_string_base u \<noteq> Inl Int_invalid_literal"
    by (auto simp: pylong_from_string_def)
  from long_from_string_base_ok [OF this] obtain p ws where
    u: "u = p @ ws" and lit: "digitpart p" "list_all py_int_space ws" by blast
  from py_sign_split [OF sv] obtain sg where
    t: "dropWhile py_int_space t = sg @ u" and sg: "sg \<in> {[], ''+'', ''-''}" by blast
  have "t = takeWhile py_int_space t @ sg @ p @ ws" using t u by (metis takeWhile_dropWhile_id)
  moreover have "list_all py_int_space (takeWhile py_int_space t)"
    by (auto simp: list_all_iff dest: set_takeWhileD)
  ultimately show ?thesis using sg lit by blast
qed

lemma literal_no_nul:
  assumes "list_all py_int_space ws1" and "list_all py_int_space ws2"
    and "sg \<in> {[], ''+'', ''-''}" and "digitpart p"
  shows "py_c_string (ws1 @ sg @ p @ ws2) = ws1 @ sg @ p @ ws2"
proof -
  have sp: "\<And>c. py_int_space c \<Longrightarrow> c \<noteq> CHR 0x00" by (auto simp: py_int_space_def)
  have "\<And>c. c \<in> set p \<Longrightarrow> c \<noteq> CHR 0x00"
    using digitpart_chars [OF assms(4)] py_digit_char_not_special(4) by fastforce
  with assms(1-3) sp show ?thesis
    by (auto simp: py_c_string_def takeWhile_eq_all_conv list_all_iff)
qed

lemma py_int_sound:
  assumes ok: "py_int s = Inr n"
  shows "int_literal s n"
proof -
  from ok have nul: "py_c_string s = s" and pl: "pylong_from_string s = Inr n"
    by (auto simp: py_int_def err_bind_eq_Inr split: if_splits)
  from pylong_from_string_ok [of s] pl obtain ws1 sg p ws2 where s: "s = ws1 @ sg @ p @ ws2"
    and parts: "list_all py_int_space ws1" "list_all py_int_space ws2"
      "sg \<in> {[], ''+'', ''-''}" "digitpart p" by auto
  from pl pylong_from_literal [OF parts] s
  have "length (digit_vals p) \<le> py_int_max_str_digits"
    and "n = (if sg = ''-'' then -1 else 1) * int (digits_value (digit_vals p))"
    by (auto simp: limit_result_def split: if_splits)
  with s parts show ?thesis unfolding int_literal_def by blast
qed

lemma py_int_complete:
  assumes "int_literal s n"
  shows "py_int s = Inr n"
proof -
  from assms obtain ws1 sg p ws2 where s: "s = ws1 @ sg @ p @ ws2"
    and ws: "list_all py_int_space ws1" "list_all py_int_space ws2"
    and sg: "sg \<in> {[], ''+'', ''-''}" and lit: "digitpart p"
    and len: "length (digit_vals p) \<le> py_int_max_str_digits"
    and n: "n = (if sg = ''-'' then -1 else 1) * int (digits_value (digit_vals p))"
    unfolding int_literal_def by blast
  have "pylong_from_string s = Inr n"
    using pylong_from_literal [OF ws sg lit] s len n by (simp add: limit_result_def)
  moreover have "py_c_string s = s" using literal_no_nul [OF ws sg lit] s by simp
  ultimately show ?thesis by (simp add: py_int_def)
qed

text \<open>
  C5: \<open>int()\<close> implements Python's grammar of base-10 integer literals exactly: it
  returns \<open>n\<close> for a string iff the string is optional whitespace, an optional sign,
  digits with single underscores between them and optional whitespace, at most 4300
  digits, whose value with that sign is \<open>n\<close>.
\<close>

theorem py_int_refines_literal: "py_int s = Inr n \<longleftrightarrow> int_literal s n"
  using py_int_sound py_int_complete by blast

theorem py_int_refines_literal_witness:
  "py_int '' +1_000\<newline>'' = Inr 1000 \<and> int_literal '' +1_000\<newline>'' 1000"
proof -
  have "py_int '' +1_000\<newline>'' = Inr 1000" by (simp add: eval_simps)
  with py_int_refines_literal [of "'' +1_000\<newline>''" 1000] show ?thesis by simp
qed

lemma py_digit_value_lt_10: "py_digit_value c = Some d \<Longrightarrow> d < 10"
  by (auto simp: py_digit_value_def Let_def split: if_splits)

lemma digit_vals_lt_10: "digitpart p \<Longrightarrow> d \<in> set (digit_vals p) \<Longrightarrow> d < 10"
proof -
  assume p: "digitpart p" and "d \<in> set (digit_vals p)"
  then obtain c where c: "c \<in> set p" "c \<noteq> CHR ''_''" and d: "d = the (py_digit_value c)"
    by (auto simp: digit_vals_def)
  from digitpart_chars [OF p c(1)] c(2) obtain d' where "py_digit_value c = Some d'"
    by (auto simp: py_digit_char_def)
  with d show "d < 10" by (simp add: py_digit_value_lt_10)
qed

text \<open>
  C10: every integer that \<open>int()\<close> returns has at most 4300 decimal digits, so its
  absolute value is below \<open>10 ^ 4300\<close>.
\<close>

theorem py_int_bound:
  assumes "py_int s = Inr n"
  shows "\<bar>n\<bar> < 10 ^ py_int_max_str_digits"
proof -
  from assms obtain ws1 sg p ws2 where lit: "digitpart p"
    and len: "length (digit_vals p) \<le> py_int_max_str_digits"
    and n: "n = (if sg = ''-'' then -1 else 1) * int (digits_value (digit_vals p))"
    using py_int_sound [OF assms] unfolding int_literal_def by blast
  have "digits_value (digit_vals p) < 10 ^ length (digit_vals p)"
    using digits_value_bound digit_vals_lt_10 [OF lit] by blast
  also have "\<dots> \<le> 10 ^ py_int_max_str_digits"
    using len by (simp add: power_increasing)
  finally show ?thesis using n by (simp add: abs_mult)
qed

theorem py_int_bound_witness:
  "py_int ''8000'' = Inr 8000 \<and> \<bar>8000::int\<bar> < 10 ^ py_int_max_str_digits"
proof -
  have ok: "py_int ''8000'' = Inr 8000" by (simp add: eval_simps)
  from ok py_int_bound [OF ok] show ?thesis by simp
qed

lemma py_int_error_cases:
  assumes "py_int s = Inl e"
  shows "e = Int_invalid_literal \<or> (\<exists>k. e = Int_digit_limit k)"
proof -
  have "long_from_string_base u = Inl e' \<Longrightarrow> e' = Int_invalid_literal \<or> (\<exists>k. e' = Int_digit_limit k)"
    for u e'
    by (auto simp: long_from_string_base_def split: if_splits option.splits)
  then have "pylong_from_string t = Inl e' \<Longrightarrow> e' = Int_invalid_literal \<or> (\<exists>k. e' = Int_digit_limit k)"
    for t e'
    by (auto simp: pylong_from_string_def err_bind_eq_Inl split: prod.splits)
  with assms show ?thesis by (auto simp: py_int_def err_bind_eq_Inl split: if_splits)
qed

lemma py_int_limit_iff:
  "py_int s = Inl (Int_digit_limit k) \<longleftrightarrow> long_literal (py_c_string s) k"
proof
  assume lim: "py_int s = Inl (Int_digit_limit k)"
  then have pl: "pylong_from_string (py_c_string s) = Inl (Int_digit_limit k)"
    by (auto simp: py_int_def err_bind_eq_Inl split: if_splits)
  from pylong_from_string_ok [of "py_c_string s"] pl obtain ws1 sg p ws2
    where t: "py_c_string s = ws1 @ sg @ p @ ws2"
    and parts: "list_all py_int_space ws1" "list_all py_int_space ws2"
      "sg \<in> {[], ''+'', ''-''}" "digitpart p" by auto
  from pl pylong_from_literal [OF parts] t
  have "k = length (digit_vals p) \<and> py_int_max_str_digits < k"
    by (auto simp: limit_result_def split: if_splits)
  with t parts show "long_literal (py_c_string s) k" unfolding long_literal_def by blast
next
  assume "long_literal (py_c_string s) k"
  then obtain ws1 sg p ws2 where t: "py_c_string s = ws1 @ sg @ p @ ws2"
    and parts: "list_all py_int_space ws1" "list_all py_int_space ws2"
      "sg \<in> {[], ''+'', ''-''}" "digitpart p"
    and k: "k = length (digit_vals p)" "py_int_max_str_digits < k"
    unfolding long_literal_def by blast
  then have "pylong_from_string (py_c_string s) = Inl (Int_digit_limit k)"
    using pylong_from_literal [OF parts] by (simp add: limit_result_def)
  then show "py_int s = Inl (Int_digit_limit k)" by (simp add: py_int_def)
qed

text \<open>
  C12: the errors of \<open>int()\<close> follow the grammar exactly: it reports the digit limit with
  count \<open>k\<close> iff the text before the first NUL is a literal with \<open>k\<close> digits, more than
  4300; and it reports an invalid literal iff the string is neither a literal within
  the limit nor, before its first NUL, a literal beyond it.
\<close>

theorem py_int_errors_follow_grammar:
  "(py_int s = Inl (Int_digit_limit k) \<longleftrightarrow> long_literal (py_c_string s) k)
   \<and> (py_int s = Inl Int_invalid_literal \<longleftrightarrow>
        (\<forall>n. \<not> int_literal s n) \<and> (\<forall>k'. \<not> long_literal (py_c_string s) k'))"
proof
  show "py_int s = Inl (Int_digit_limit k) \<longleftrightarrow> long_literal (py_c_string s) k"
    by (rule py_int_limit_iff)
  show "py_int s = Inl Int_invalid_literal \<longleftrightarrow>
        (\<forall>n. \<not> int_literal s n) \<and> (\<forall>k'. \<not> long_literal (py_c_string s) k')"
  proof
    assume bad: "py_int s = Inl Int_invalid_literal"
    show "(\<forall>n. \<not> int_literal s n) \<and> (\<forall>k'. \<not> long_literal (py_c_string s) k')"
    proof (intro conjI allI notI)
      fix n assume "int_literal s n"
      with bad show False using py_int_complete by simp
    next
      fix k' assume "long_literal (py_c_string s) k'"
      with bad show False using py_int_limit_iff [of s k'] by simp
    qed
  next
    assume none: "(\<forall>n. \<not> int_literal s n) \<and> (\<forall>k'. \<not> long_literal (py_c_string s) k')"
    show "py_int s = Inl Int_invalid_literal"
    proof (cases "py_int s")
      case (Inl e)
      then show ?thesis
        using py_int_error_cases [OF Inl] none py_int_limit_iff by auto
    next
      case (Inr n)
      then show ?thesis using py_int_sound none by blast
    qed
  qed
qed

section \<open>Underscores and the order of the checks\<close>

lemma digitpart_filter_sep:
  "digitpart p \<Longrightarrow> digitpart (filter (\<lambda>c. c \<noteq> CHR ''_'') p)"
proof (induction rule: digitpart.induct)
  case (one c)
  then show ?case by (simp add: py_digit_char_not_special(1) digitpart.one)
next
  case (more c p)
  then show ?case by (simp add: py_digit_char_not_special(1) digitpart.more)
next
  case (sep c p)
  then show ?case by (simp add: py_digit_char_not_special(1) digitpart.more)
qed

lemma digit_vals_filter_sep [simp]:
  "digit_vals (filter (\<lambda>c. c \<noteq> CHR ''_'') p) = digit_vals p"
  by (simp add: digit_vals_def)

lemma filter_sep_spaces:
  "list_all py_int_space ws \<Longrightarrow> filter (\<lambda>c. c \<noteq> CHR ''_'') ws = ws"
  unfolding list_all_iff filter_id_conv using py_int_space_stops by blast

text \<open>
  C14: underscores are only separators: removing every underscore from a string that
  \<open>int()\<close> accepts gives a string that \<open>int()\<close> accepts with the same value.
\<close>

theorem py_int_drop_underscores:
  assumes "py_int s = Inr n"
  shows "py_int (filter (\<lambda>c. c \<noteq> CHR ''_'') s) = Inr n"
proof -
  from py_int_sound [OF assms] obtain ws1 sg p ws2 where s: "s = ws1 @ sg @ p @ ws2"
    and ws: "list_all py_int_space ws1" "list_all py_int_space ws2"
    and sg: "sg \<in> {[], ''+'', ''-''}" and lit: "digitpart p"
    and len: "length (digit_vals p) \<le> py_int_max_str_digits"
    and n: "n = (if sg = ''-'' then -1 else 1) * int (digits_value (digit_vals p))"
    unfolding int_literal_def by blast
  let ?f = "filter (\<lambda>c. c \<noteq> CHR ''_'')"
  have "?f sg = sg" using sg by auto
  then have fs: "?f s = ws1 @ sg @ ?f p @ ws2"
    using s filter_sep_spaces [OF ws(1)] filter_sep_spaces [OF ws(2)] by simp
  have "int_literal (?f s) n"
    unfolding int_literal_def
  proof (intro exI conjI)
    show "?f s = ws1 @ sg @ ?f p @ ws2" by (rule fs)
    show "digitpart (?f p)" using lit by (rule digitpart_filter_sep)
    show "length (digit_vals (?f p)) \<le> py_int_max_str_digits" using len by simp
    show "n = (if sg = ''-'' then -1 else 1) * int (digits_value (digit_vals (?f p)))" using n by simp
  qed (use ws sg in auto)
  then show ?thesis by (rule py_int_complete)
qed

theorem py_int_drop_underscores_witness:
  "py_int '' -8_0_00 '' = Inr (-8000) \<and> py_int '' -8000 '' = Inr (-8000)"
proof -
  have ok: "py_int '' -8_0_00 '' = Inr (-8000)" by (simp add: eval_simps)
  from py_int_drop_underscores [OF ok] ok show ?thesis by simp
qed

lemma pylong_from_digit_chars:
  assumes "ds \<noteq> []" and "\<forall>d\<in>set ds. d < 10"
  shows "pylong_from_string (map digit_char ds @ rest) =
           err_bind (long_from_string_base (map digit_char ds @ rest)) (\<lambda>m. Inr (int m))"
proof -
  obtain d ds' where ds: "ds = d # ds'" and d: "d < 10" using assms by (cases ds) auto
  have "dropWhile py_int_space (map digit_char ds @ rest) = map digit_char ds @ rest"
    using ds d by (simp add: digit_char_not_special(5))
  with ds d show ?thesis by (simp add: pylong_from_string_def py_sign_def digit_char_not_special)
qed

text \<open>
  C15: the syntax is checked before the digit limit: a numeral longer than 4300 digits
  that is followed by a character that is not a digit, an underscore, whitespace or NUL
  is reported as an invalid literal, and only the same numeral on its own is reported
  as exceeding the limit.
\<close>

theorem py_int_syntax_before_limit:
  assumes digits: "\<forall>d\<in>set ds. d < 10" and long: "py_int_max_str_digits < length ds"
    and c: "py_digit_value c = None" "c \<noteq> CHR ''_''" "\<not> py_int_space c" "c \<noteq> CHR 0x00"
  shows "py_int (map digit_char ds @ c # rest) = Inl Int_invalid_literal
         \<and> py_int (map digit_char ds) = Inl (Int_digit_limit (length ds))"
proof -
  have ne: "ds \<noteq> []" using long by auto
  have nonnul: "\<forall>x\<in>set (map digit_char ds). x \<noteq> CHR 0x00"
    using digits digit_char_not_special(4) by auto
  let ?r = "takeWhile (\<lambda>x. x \<noteq> CHR 0x00) rest"
  have cs1: "py_c_string (map digit_char ds @ c # rest) = map digit_char ds @ c # ?r"
    using nonnul c(4) unfolding py_c_string_def by (subst takeWhile_append2) auto
  have cs2: "py_c_string (map digit_char ds) = map digit_char ds"
    using nonnul by (simp add: py_c_string_def takeWhile_eq_all_conv)
  have "scan_digits False [] (map digit_char ds @ c # ?r) = Some (ds, c # ?r)"
    using scan_digits_digit_chars [of ds "c # ?r" "[]"] digits c(1,2) by simp
  moreover have "hd (map digit_char ds @ c # ?r) \<noteq> CHR ''_''"
    using ne digits by (cases ds) (simp_all add: digit_char_not_special)
  ultimately have "long_from_string_base (map digit_char ds @ c # ?r) = Inl Int_invalid_literal"
    using ne c(3) by (simp add: long_from_string_base_def)
  then have bad: "py_int (map digit_char ds @ c # rest) = Inl Int_invalid_literal"
    using pylong_from_digit_chars [OF ne digits, of "c # ?r"] cs1 by (simp add: py_int_def)
  have "py_int (map digit_char ds) = Inl (Int_digit_limit (length ds))"
    using pylong_from_digit_chars [OF ne digits, of "[]"] long_from_string_base_digits [OF ne digits]
      long cs2 by (simp add: py_int_def)
  with bad show ?thesis by blast
qed

theorem py_int_syntax_before_limit_witness:
  "py_int (map digit_char (replicate 4301 1) @ CHR ''x'' # [CHR '' '']) = Inl Int_invalid_literal
   \<and> py_int (map digit_char (replicate 4301 1)) = Inl (Int_digit_limit (length (replicate 4301 (1::nat))))"
proof (rule py_int_syntax_before_limit)
  show "\<forall>d\<in>set (replicate 4301 (1::nat)). d < 10" by (simp only: set_replicate) simp
  show "py_int_max_str_digits < length (replicate 4301 (1::nat))"
    by (simp only: length_replicate) (simp add: py_int_max_str_digits_def)
  show "py_digit_value (CHR ''x'') = None" "CHR ''x'' \<noteq> CHR ''_''"
    "\<not> py_int_space (CHR ''x'')" "CHR ''x'' \<noteq> CHR 0x00"
    by (simp_all add: py_digit_value_def py_int_space_def)
qed

end
