(* ===== verification/Tool_Registry.thy ===== *)
theory Tool_Registry
  imports Prelude
begin

text \<open>
  The tool registry of \<open>src/bybit_mcp/main.py\<close>: the 36 endpoint functions imported from
  the modules \<open>market\<close>, \<open>position\<close> and \<open>trade\<close> (lines 8-49), the \<open>FastMCP\<close> server
  they are registered on (lines 57-99), and the static resource \<open>market_info\<close>
  (lines 101-112). The endpoint bodies live in modules that are not part of the
  sources; each is an opaque constructor of \<open>endpoint\<close>, named by its \<open>__name__\<close>,
  which is taken to be the name it is imported under. The framework's registry is
  modelled from the contract the spec gives it: \<open>add_tool\<close> rejects a name already
  registered, resources are keyed by URI, and a call is dispatched by name. Results:
  the exact effect of a sequence of registrations (\<open>add_tools_Inr_iff\<close>), the
  dispatch table of the started server, and agreement of the resource text with the
  registered market-data tools.
\<close>

section \<open>The endpoint functions\<close>

text \<open>One constructor per endpoint function imported at lines 8-49, in import order.\<close>

datatype endpoint =
    Get_funding_rate_history | Get_index_price_kline | Get_instruments_info | Get_insurance
  | Get_kline | Get_long_short_ratio | Get_mark_price_kline | Get_open_interest
  | Get_order_book | Get_premium_index_price_kline | Get_recent_trades | Get_risk_limit
  | Get_server_time | Get_tickers
  | Get_closed_pnl | Get_position_info | Modify_position_margin | Set_auto_add_margin
  | Set_leverage | Set_trading_stop | Switch_cross_isolated_margin | Switch_position_mode
  | Amend_order | Batch_amend_order | Batch_cancel_order | Batch_place_order
  | Cancel_all_orders | Cancel_order | Get_account_info | Get_open_closed_orders
  | Get_order_history | Get_single_coin_balance | Get_trade_history | Get_wallet_balance
  | Place_order | Place_trigger_order

datatype py_module = Market | Position | Trade

fun endpoint_module :: "endpoint \<Rightarrow> py_module" where
  "endpoint_module Get_funding_rate_history = Market"
| "endpoint_module Get_index_price_kline = Market"
| "endpoint_module Get_instruments_info = Market"
| "endpoint_module Get_insurance = Market"
| "endpoint_module Get_kline = Market"
| "endpoint_module Get_long_short_ratio = Market"
| "endpoint_module Get_mark_price_kline = Market"
| "endpoint_module Get_open_interest = Market"
| "endpoint_module Get_order_book = Market"
| "endpoint_module Get_premium_index_price_kline = Market"
| "endpoint_module Get_recent_trades = Market"
| "endpoint_module Get_risk_limit = Market"
| "endpoint_module Get_server_time = Market"
| "endpoint_module Get_tickers = Market"
| "endpoint_module Get_closed_pnl = Position"
| "endpoint_module Get_position_info = Position"
| "endpoint_module Modify_position_margin = Position"
| "endpoint_module Set_auto_add_margin = Position"
| "endpoint_module Set_leverage = Position"
| "endpoint_module Set_trading_stop = Position"
| "endpoint_module Switch_cross_isolated_margin = Position"
| "endpoint_module Switch_position_mode = Position"
| "endpoint_module _ = Trade"

text \<open>The function's \<open>__name__\<close>, which FastMCP uses as the tool name.\<close>

fun endpoint_name :: "endpoint \<Rightarrow> string" where
  "endpoint_name Get_funding_rate_history = ''get_funding_rate_history''"
| "endpoint_name Get_index_price_kline = ''get_index_price_kline''"
| "endpoint_name Get_instruments_info = ''get_instruments_info''"
| "endpoint_name Get_insurance = ''get_insurance''"
| "endpoint_name Get_kline = ''get_kline''"
| "endpoint_name Get_long_short_ratio = ''get_long_short_ratio''"
| "endpoint_name Get_mark_price_kline = ''get_mark_price_kline''"
| "endpoint_name Get_open_interest = ''get_open_interest''"
| "endpoint_name Get_order_book = ''get_order_book''"
| "endpoint_name Get_premium_index_price_kline = ''get_premium_index_price_kline''"
| "endpoint_name Get_recent_trades = ''get_recent_trades''"
| "endpoint_name Get_risk_limit = ''get_risk_limit''"
| "endpoint_name Get_server_time = ''get_server_time''"
| "endpoint_name Get_tickers = ''get_tickers''"
| "endpoint_name Get_closed_pnl = ''get_closed_pnl''"
| "endpoint_name Get_position_info = ''get_position_info''"
| "endpoint_name Modify_position_margin = ''modify_position_margin''"
| "endpoint_name Set_auto_add_margin = ''set_auto_add_margin''"
| "endpoint_name Set_leverage = ''set_leverage''"
| "endpoint_name Set_trading_stop = ''set_trading_stop''"
| "endpoint_name Switch_cross_isolated_margin = ''switch_cross_isolated_margin''"
| "endpoint_name Switch_position_mode = ''switch_position_mode''"
| "endpoint_name Amend_order = ''amend_order''"
| "endpoint_name Batch_amend_order = ''batch_amend_order''"
| "endpoint_name Batch_cancel_order = ''batch_cancel_order''"
| "endpoint_name Batch_place_order = ''batch_place_order''"
| "endpoint_name Cancel_all_orders = ''cancel_all_orders''"
| "endpoint_name Cancel_order = ''cancel_order''"
| "endpoint_name Get_account_info = ''get_account_info''"
| "endpoint_name Get_open_closed_orders = ''get_open_closed_orders''"
| "endpoint_name Get_order_history = ''get_order_history''"
| "endpoint_name Get_single_coin_balance = ''get_single_coin_balance''"
| "endpoint_name Get_trade_history = ''get_trade_history''"
| "endpoint_name Get_wallet_balance = ''get_wallet_balance''"
| "endpoint_name Place_order = ''place_order''"
| "endpoint_name Place_trigger_order = ''place_trigger_order''"

text \<open>All endpoints, in import order (lines 9-22, 25-32, 35-48).\<close>

definition all_endpoints :: "endpoint list" where
  "all_endpoints =
     [Get_funding_rate_history, Get_index_price_kline, Get_instruments_info, Get_insurance,
      Get_kline, Get_long_short_ratio, Get_mark_price_kline, Get_open_interest,
      Get_order_book, Get_premium_index_price_kline, Get_recent_trades, Get_risk_limit,
      Get_server_time, Get_tickers,
      Get_closed_pnl, Get_position_info, Modify_position_margin, Set_auto_add_margin,
      Set_leverage, Set_trading_stop, Switch_cross_isolated_margin, Switch_position_mode,
      Amend_order, Batch_amend_order, Batch_cancel_order, Batch_place_order,
      Cancel_all_orders, Cancel_order, Get_account_info, Get_open_closed_orders,
      Get_order_history, Get_single_coin_balance, Get_trade_history, Get_wallet_balance,
      Place_order, Place_trigger_order]"

lemma set_all_endpoints: "set all_endpoints = UNIV"
proof (rule UNIV_eq_I [symmetric])
  fix e :: endpoint
  show "e \<in> set all_endpoints" by (cases e) (simp_all add: all_endpoints_def)
qed

lemma distinct_all_endpoints: "distinct all_endpoints"
  by (simp add: all_endpoints_def)

instantiation endpoint :: enum
begin

definition enum_endpoint :: "endpoint list" where
  "enum_endpoint = all_endpoints"

definition enum_all_endpoint :: "(endpoint \<Rightarrow> bool) \<Rightarrow> bool" where
  "enum_all_endpoint P \<longleftrightarrow> list_all P all_endpoints"

definition enum_ex_endpoint :: "(endpoint \<Rightarrow> bool) \<Rightarrow> bool" where
  "enum_ex_endpoint P \<longleftrightarrow> list_ex P all_endpoints"

instance
  by standard (simp_all add: enum_endpoint_def enum_all_endpoint_def enum_ex_endpoint_def
      set_all_endpoints distinct_all_endpoints list_all_iff list_ex_iff)

end

lemma endpoint_name_distinct: "distinct (map endpoint_name all_endpoints)"
  by (simp add: all_endpoints_def)

lemma endpoint_name_inj: "inj endpoint_name"
proof -
  have "inj_on endpoint_name (set all_endpoints)"
    using endpoint_name_distinct by (simp add: distinct_map)
  then show ?thesis by (simp add: set_all_endpoints)
qed

lemma endpoint_name_eq_iff [simp]: "endpoint_name a = endpoint_name b \<longleftrightarrow> a = b"
  using endpoint_name_inj by (auto dest: injD)

section \<open>The FastMCP server\<close>

text \<open>
  \<open>FastMCP\<close> is the external framework (package \<open>mcp\<close>); its registry is modelled from
  the contract the spec gives it (sections 3, 4.1, 4.2 and 9): a tool is its name and
  callable, \<open>add_tool\<close> rejects a name that is already registered, a resource is a URI,
  a display name, a MIME type and a content producer, and dispatch looks a tool up by
  name.
\<close>

record tool =
  tool_name :: string
  tool_fn :: endpoint

record resource =
  res_uri :: string
  res_name :: string
  res_mime :: string
  res_producer :: "unit \<Rightarrow> string"

record server =
  srv_name :: string
  srv_host :: string
  srv_port :: int
  srv_tools :: "string \<rightharpoonup> tool"
  srv_resources :: "string \<rightharpoonup> resource"

definition fastmcp :: "string \<Rightarrow> string \<Rightarrow> int \<Rightarrow> server" where
  "fastmcp name host port =
     \<lparr>srv_name = name, srv_host = host, srv_port = port,
      srv_tools = Map.empty, srv_resources = Map.empty\<rparr>"

text \<open>\<open>Tool.from_function\<close>: the tool is named after the function.\<close>

definition tool_of :: "endpoint \<Rightarrow> tool" where
  "tool_of e = \<lparr>tool_name = endpoint_name e, tool_fn = e\<rparr>"

definition add_tool :: "server \<Rightarrow> endpoint \<Rightarrow> py_error + server" where
  "add_tool srv e =
     (let t = tool_of e in
      case srv_tools srv (tool_name t) of
        Some _ \<Rightarrow> Inl (Tool_duplicate (tool_name t))
      | None \<Rightarrow> Inr (srv\<lparr>srv_tools := (srv_tools srv)(tool_name t \<mapsto> t)\<rparr>))"

fun add_tools :: "server \<Rightarrow> endpoint list \<Rightarrow> py_error + server" where
  "add_tools srv [] = Inr srv"
| "add_tools srv (e # es) = err_bind (add_tool srv e) (\<lambda>srv'. add_tools srv' es)"

text \<open>The \<open>@server.resource(uri, name=..., mime_type=...)\<close> decorator.\<close>

definition add_resource :: "server \<Rightarrow> resource \<Rightarrow> server" where
  "add_resource srv r = srv\<lparr>srv_resources := (srv_resources srv)(res_uri r \<mapsto> r)\<rparr>"

text \<open>Dispatch of a tool call and of a resource read by the framework.\<close>

definition call_tool :: "server \<Rightarrow> string \<Rightarrow> py_error + endpoint" where
  "call_tool srv name =
     (case srv_tools srv name of None \<Rightarrow> Inl (Unknown_tool name) | Some t \<Rightarrow> Inr (tool_fn t))"

definition read_resource :: "server \<Rightarrow> string \<Rightarrow> py_error + string" where
  "read_resource srv uri =
     (case srv_resources srv uri of
        None \<Rightarrow> Inl (Unknown_resource uri)
      | Some r \<Rightarrow> Inr (res_producer r ()))"

section \<open>The registrations of main.py\<close>

text \<open>Lines 60-73, 76-89 and 92-98, in the order of the \<open>add_tool\<close> calls.\<close>

definition market_tools :: "endpoint list" where
  "market_tools =
     [Get_server_time, Get_tickers, Get_order_book, Get_recent_trades, Get_kline,
      Get_mark_price_kline, Get_index_price_kline, Get_premium_index_price_kline,
      Get_instruments_info, Get_funding_rate_history, Get_open_interest, Get_insurance,
      Get_risk_limit, Get_long_short_ratio]"

definition trading_tools :: "endpoint list" where
  "trading_tools =
     [Place_order, Amend_order, Cancel_order, Get_open_closed_orders, Cancel_all_orders,
      Get_order_history, Get_trade_history, Batch_place_order, Batch_amend_order,
      Batch_cancel_order, Get_wallet_balance, Get_single_coin_balance, Get_account_info,
      Place_trigger_order]"

definition position_tools :: "endpoint list" where
  "position_tools =
     [Get_position_info, Get_closed_pnl, Set_leverage, Switch_cross_isolated_margin,
      Switch_position_mode, Set_trading_stop, Set_auto_add_margin, Modify_position_margin]"

definition registered_tools :: "endpoint list" where
  "registered_tools = market_tools @ trading_tools @ position_tools"

text \<open>\<open>market_info()\<close>, lines 101-112: the text it returns, literal by literal.\<close>

definition market_info :: string where
  "market_info =
     ''# Bybit MCP Server\<newline>\<newline>'' @
     ''This MCP server provides access to Bybit's v5 Market API endpoints.\<newline>\<newline>'' @
     ''## Available Endpoints:\<newline>'' @
     ''- get_server_time\<newline>- get_tickers\<newline>- get_order_book\<newline>- get_recent_trades\<newline>'' @
     ''- get_kline\<newline>- get_mark_price_kline\<newline>- get_index_price_kline\<newline>'' @
     ''- get_premium_index_price_kline\<newline>- get_instruments_info\<newline>'' @
     ''- get_funding_rate_history\<newline>- get_open_interest\<newline>- get_insurance\<newline>'' @
     ''- get_risk_limit\<newline>- get_long_short_ratio\<newline>''"

definition market_info_resource :: resource where
  "market_info_resource =
     \<lparr>res_uri = ''bybit://market/info'', res_name = ''Bybit Market Information'',
      res_mime = ''text/plain'', res_producer = (\<lambda>_. market_info)\<rparr>"

text \<open>Lines 57-112: construct the server, register every tool, then the resource.\<close>

definition build_server :: "int \<Rightarrow> py_error + server" where
  "build_server port =
     err_bind (add_tools (fastmcp ''bybit-mcp'' ''0.0.0.0'' port) registered_tools)
       (\<lambda>srv. Inr (add_resource srv market_info_resource))"

section \<open>Registering tools\<close>

lemma tool_of_simps [simp]: "tool_name (tool_of e) = endpoint_name e" "tool_fn (tool_of e) = e"
  by (simp_all add: tool_of_def)

lemma add_tool_eq:
  "add_tool srv e =
     (if srv_tools srv (endpoint_name e) = None
      then Inr (srv\<lparr>srv_tools := (srv_tools srv)(endpoint_name e \<mapsto> tool_of e)\<rparr>)
      else Inl (Tool_duplicate (endpoint_name e)))"
  by (auto simp: add_tool_def Let_def split: option.splits)

section \<open>What add_tools does\<close>

definition tool_table :: "endpoint list \<Rightarrow> string \<rightharpoonup> tool" where
  "tool_table es = map_of (map (\<lambda>e. (endpoint_name e, tool_of e)) es)"

lemma tool_table_Nil [simp]: "tool_table [] = Map.empty"
  by (simp add: tool_table_def)

lemma tool_table_Cons [simp]: "tool_table (e # es) = (tool_table es)(endpoint_name e \<mapsto> tool_of e)"
  by (simp add: tool_table_def)

lemma tool_table_None_iff [simp]: "tool_table es n = None \<longleftrightarrow> (\<forall>e\<in>set es. endpoint_name e \<noteq> n)"
  by (induction es) auto

lemma add_tools_Inr_iff:
  "add_tools srv es = Inr srv' \<longleftrightarrow>
     distinct es \<and> (\<forall>e\<in>set es. srv_tools srv (endpoint_name e) = None)
     \<and> srv' = srv\<lparr>srv_tools := srv_tools srv ++ tool_table es\<rparr>"
proof (induction es arbitrary: srv)
  case Nil
  then show ?case by auto
next
  case (Cons e es)
  show ?case
  proof (cases "srv_tools srv (endpoint_name e) = None")
    case False
    then obtain t where "srv_tools srv (endpoint_name e) = Some t" by auto
    then show ?thesis by (auto simp: add_tool_eq)
  next
    case True
    let ?t1 = "(srv_tools srv)(endpoint_name e \<mapsto> tool_of e)"
    let ?srv1 = "srv\<lparr>srv_tools := ?t1\<rparr>"
    have "add_tools srv (e # es) = Inr srv' \<longleftrightarrow> add_tools ?srv1 es = Inr srv'"
      using True by (simp add: add_tool_eq)
    also have "\<dots> \<longleftrightarrow> distinct es
        \<and> (\<forall>e'\<in>set es. srv_tools ?srv1 (endpoint_name e') = None)
        \<and> srv' = ?srv1\<lparr>srv_tools := srv_tools ?srv1 ++ tool_table es\<rparr>"
      by (rule Cons.IH)
    also have "\<dots> \<longleftrightarrow> distinct (e # es) \<and> (\<forall>e'\<in>set (e # es). srv_tools srv (endpoint_name e') = None)
        \<and> srv' = srv\<lparr>srv_tools := srv_tools srv ++ tool_table (e # es)\<rparr>"
    proof (cases "e \<in> set es")
      case True
      then show ?thesis by auto
    next
      case False
      then have "?t1 ++ tool_table es = srv_tools srv ++ tool_table (e # es)"
        by (simp add: map_add_upd_left domIff)
      with False True show ?thesis by auto
    qed
    finally show ?thesis .
  qed
qed

section \<open>The registrations of main.py are complete and consistent\<close>

lemma distinct_registered_tools: "distinct registered_tools"
  by (simp add: registered_tools_def market_tools_def trading_tools_def position_tools_def)

lemma market_tools_module: "e \<in> set market_tools \<longleftrightarrow> endpoint_module e = Market"
  by (cases e) (simp_all add: market_tools_def)

lemma trading_tools_module: "e \<in> set trading_tools \<longleftrightarrow> endpoint_module e = Trade"
  by (cases e) (simp_all add: trading_tools_def)

lemma position_tools_module: "e \<in> set position_tools \<longleftrightarrow> endpoint_module e = Position"
  by (cases e) (simp_all add: position_tools_def)

lemma set_registered_tools: "set registered_tools = UNIV"
proof (rule UNIV_eq_I [symmetric])
  fix e
  show "e \<in> set registered_tools"
    by (cases "endpoint_module e")
       (simp_all add: registered_tools_def market_tools_module trading_tools_module
         position_tools_module)
qed

lemma build_server_eq:
  "build_server port =
     Inr (add_resource ((fastmcp ''bybit-mcp'' ''0.0.0.0'' port)\<lparr>srv_tools := tool_table registered_tools\<rparr>)
            market_info_resource)"
proof -
  have "add_tools (fastmcp ''bybit-mcp'' ''0.0.0.0'' port) registered_tools =
          Inr ((fastmcp ''bybit-mcp'' ''0.0.0.0'' port)\<lparr>srv_tools := tool_table registered_tools\<rparr>)"
    using distinct_registered_tools by (simp add: add_tools_Inr_iff fastmcp_def)
  then show ?thesis by (simp add: build_server_def)
qed

lemma tool_table_registered [simp]: "tool_table registered_tools (endpoint_name e) = Some (tool_of e)"
proof -
  have "(endpoint_name e, tool_of e) \<in> set (map (\<lambda>e. (endpoint_name e, tool_of e)) registered_tools)"
    using set_registered_tools by auto
  moreover have "distinct (map fst (map (\<lambda>e. (endpoint_name e, tool_of e)) registered_tools))"
    using distinct_registered_tools by (simp add: distinct_map comp_def inj_on_def)
  ultimately show ?thesis by (simp add: tool_table_def)
qed

lemma tool_table_registered_None: "n \<notin> range endpoint_name \<Longrightarrow> tool_table registered_tools n = None"
  by auto

section \<open>The server after start-up\<close>

lemma build_server_tools:
  "build_server port = Inr srv \<Longrightarrow> srv_tools srv = tool_table registered_tools"
  by (auto simp: build_server_eq add_resource_def fastmcp_def)

lemma tool_table_Some: "tool_table es n = Some t \<Longrightarrow> \<exists>e\<in>set es. n = endpoint_name e \<and> t = tool_of e"
  by (induction es) (auto split: if_splits)

text \<open>
  C8: after start-up every tool name dispatches to its own endpoint function, and any
  other name is rejected as an unknown tool.
\<close>

theorem build_server_dispatch:
  assumes "build_server port = Inr srv"
  shows "call_tool srv (endpoint_name e) = Inr e
         \<and> (n \<notin> range endpoint_name \<longrightarrow> call_tool srv n = Inl (Unknown_tool n))"
proof
  have tools: "srv_tools srv = tool_table registered_tools"
    using assms by (rule build_server_tools)
  then show "call_tool srv (endpoint_name e) = Inr e" by (simp add: call_tool_def)
  show "n \<notin> range endpoint_name \<longrightarrow> call_tool srv n = Inl (Unknown_tool n)"
  proof
    assume "n \<notin> range endpoint_name"
    then have "tool_table registered_tools n = None" by (rule tool_table_registered_None)
    with tools show "call_tool srv n = Inl (Unknown_tool n)"
      by (simp add: call_tool_def del: tool_table_None_iff)
  qed
qed

lemma build_server_8000: "\<exists>srv. build_server 8000 = Inr srv"
  by (simp add: build_server_eq)

lemma withdraw_not_a_tool: "''withdraw'' \<notin> range endpoint_name"
proof -
  have "range endpoint_name = set (map endpoint_name all_endpoints)"
    by (simp add: set_all_endpoints)
  then show ?thesis by (simp add: all_endpoints_def)
qed

theorem build_server_dispatch_witness:
  "\<exists>srv. build_server 8000 = Inr srv \<and> call_tool srv ''place_order'' = Inr Place_order
     \<and> call_tool srv ''withdraw'' = Inl (Unknown_tool ''withdraw'')"
proof -
  obtain srv where ok: "build_server 8000 = Inr srv" using build_server_8000 by blast
  have "call_tool srv (endpoint_name Place_order) = Inr Place_order
        \<and> (''withdraw'' \<notin> range endpoint_name
             \<longrightarrow> call_tool srv ''withdraw'' = Inl (Unknown_tool ''withdraw''))"
    by (rule build_server_dispatch [OF ok])
  then show ?thesis using ok withdraw_not_a_tool by auto
qed

section \<open>The market information resource\<close>

text \<open>How a reader of the resource finds its tool list: the lines that start with
  \<open>- \<close>, without that prefix.\<close>

fun split_lines :: "string \<Rightarrow> string \<Rightarrow> string list" where
  "split_lines cur [] = [rev cur]"
| "split_lines cur (c # cs) =
     (if c = CHR 0x0A then rev cur # split_lines [] cs else split_lines (c # cur) cs)"

definition listed_tools :: "string \<Rightarrow> string list" where
  "listed_tools txt = map (drop 2) (filter (\<lambda>l. take 2 l = ''- '') (split_lines [] txt))"

lemma listed_tools_market_info: "listed_tools market_info = map endpoint_name market_tools"
  by code_simp

text \<open>
  C9: the resource \<open>bybit://market/info\<close> is registered and the tools its text lists
  are exactly the registered tools of the market module, each listed once.
\<close>

theorem build_server_market_info:
  assumes "build_server port = Inr srv"
  shows "read_resource srv ''bybit://market/info'' = Inr market_info
         \<and> distinct (listed_tools market_info)
         \<and> set (listed_tools market_info) =
             {n. \<exists>e. call_tool srv n = Inr e \<and> endpoint_module e = Market}"
proof -
  have srv: "srv = add_resource ((fastmcp ''bybit-mcp'' ''0.0.0.0'' port)
                     \<lparr>srv_tools := tool_table registered_tools\<rparr>) market_info_resource"
    using assms by (simp add: build_server_eq)
  have tools: "srv_tools srv = tool_table registered_tools"
    using assms by (rule build_server_tools)
  have read: "read_resource srv ''bybit://market/info'' = Inr market_info"
    by (simp add: srv read_resource_def add_resource_def market_info_resource_def)
  have dist: "distinct (listed_tools market_info)"
    by (simp add: listed_tools_market_info distinct_map market_tools_def)
  have "n \<in> set (listed_tools market_info) \<longleftrightarrow>
          (\<exists>e. call_tool srv n = Inr e \<and> endpoint_module e = Market)" for n
  proof
    assume "n \<in> set (listed_tools market_info)"
    then obtain e where "e \<in> set market_tools" and n: "n = endpoint_name e"
      by (auto simp: listed_tools_market_info)
    then show "\<exists>e. call_tool srv n = Inr e \<and> endpoint_module e = Market"
      using tools market_tools_module by (auto simp: call_tool_def)
  next
    assume "\<exists>e. call_tool srv n = Inr e \<and> endpoint_module e = Market"
    then obtain e where call: "call_tool srv n = Inr e" and m: "endpoint_module e = Market" by blast
    then obtain t where "tool_table registered_tools n = Some t" and "tool_fn t = e"
      using tools by (auto simp: call_tool_def split: option.splits)
    then obtain e' where n: "n = endpoint_name e'" and "e' = e"
      using tool_table_Some by fastforce
    with n m market_tools_module show "n \<in> set (listed_tools market_info)"
      by (simp add: listed_tools_market_info)
  qed
  with read dist show ?thesis by blast
qed

theorem build_server_market_info_witness:
  "\<exists>srv. build_server 8000 = Inr srv \<and> read_resource srv ''bybit://market/info'' = Inr market_info
     \<and> ''get_tickers'' \<in> set (listed_tools market_info)"
proof -
  obtain srv where ok: "build_server 8000 = Inr srv" using build_server_8000 by blast
  have "call_tool srv (endpoint_name Get_tickers) = Inr Get_tickers"
    using build_server_tools [OF ok] tool_table_registered [of Get_tickers]
    by (simp add: call_tool_def)
  then have "''get_tickers'' \<in> {n. \<exists>e. call_tool srv n = Inr e \<and> endpoint_module e = Market}"
    by auto
  then show ?thesis using ok build_server_market_info [OF ok] by auto
qed

end
