(* ===== verification/Process.thy ===== *)
theory Process
  imports Transport Py_Int Tool_Registry
begin

text \<open>
  The process that runs \<open>src/bybit_mcp/main.py\<close>: the module-level statements executed
  when the module is imported (\<open>module_init\<close>, lines 51-112), then \<open>cli_main\<close> and
  \<open>main\<close> (lines 114-126), then the external server loop, and the exit status. The
  process is a record of its environment, the lines it has logged and its phase;
  \<open>proc_step\<close> is its step relation and \<open>reachable\<close> its reachable states. Results: an
  invariant that pins down every reachable state, the safety properties that follow
  from it (a server loop runs only for a supported transport and a well-formed port,
  with the registry of main.py, after exactly one log line; exit status 0 only after a
  good configuration), and reachability of the running state.
\<close>

section \<open>Module initialisation\<close>

text \<open>Lines 51-112, run when the module is imported: merge the \<open>.env\<close> file into the
  environment, parse \<open>MCP_PORT\<close> (default \<open>8000\<close>), construct the server and register
  the tools and the resource. An exception here stops the import.\<close>

definition module_init :: "env \<Rightarrow> env \<Rightarrow> py_error + (env \<times> server)" where
  "module_init dotfile e0 =
     (let e = load_dotenv dotfile e0 in
      err_bind (py_int (os_getenv e ''MCP_PORT'' ''8000''))
        (\<lambda>port. err_bind (build_server port) (\<lambda>srv. Inr (e, srv))))"

section \<open>The process\<close>

datatype exit_status = Exit_ok | Exit_error py_error

datatype phase =
    Unstarted
  | Imported server
  | Running transport server
  | Terminated exit_status

record proc =
  p_env :: env
  p_log :: "string list"
  p_phase :: phase

definition init_proc :: "env \<Rightarrow> proc" where
  "init_proc e0 = \<lparr>p_env = e0, p_log = [], p_phase = Unstarted\<rparr>"

text \<open>The status the interpreter exits with (lines 125-130): 0 when \<open>cli_main\<close>
  returns; 1 when an exception propagates out of it, either from the import or
  through \<open>asyncio.run\<close> (CPython prints the traceback and exits with status 1).\<close>

fun exit_code :: "exit_status \<Rightarrow> nat" where
  "exit_code Exit_ok = 0"
| "exit_code (Exit_error _) = 1"

text \<open>
  One rule per transition of the process: the import of the module succeeds or
  raises; \<open>cli_main\<close> runs \<open>main\<close> under \<open>asyncio.run\<close> (lines 125-126), which logs and
  then awaits a server loop or raises; the server loop, external to this program,
  eventually returns or raises.
\<close>

inductive proc_step :: "env \<Rightarrow> proc \<Rightarrow> proc \<Rightarrow> bool" for dotfile :: env where
  import_ok: "p_phase s = Unstarted \<Longrightarrow> module_init dotfile (p_env s) = Inr (e, srv) \<Longrightarrow>
    proc_step dotfile s (s\<lparr>p_env := e, p_phase := Imported srv\<rparr>)"
| import_fail: "p_phase s = Unstarted \<Longrightarrow> module_init dotfile (p_env s) = Inl err \<Longrightarrow>
    proc_step dotfile s (s\<lparr>p_phase := Terminated (Exit_error err)\<rparr>)"
| main_run: "p_phase s = Imported srv \<Longrightarrow> main_py (p_env s) = (logs, Inr t) \<Longrightarrow>
    proc_step dotfile s (s\<lparr>p_log := p_log s @ logs, p_phase := Running t srv\<rparr>)"
| main_fail: "p_phase s = Imported srv \<Longrightarrow> main_py (p_env s) = (logs, Inl err) \<Longrightarrow>
    proc_step dotfile s (s\<lparr>p_log := p_log s @ logs, p_phase := Terminated (Exit_error err)\<rparr>)"
| loop_returns: "p_phase s = Running t srv \<Longrightarrow>
    proc_step dotfile s (s\<lparr>p_phase := Terminated Exit_ok\<rparr>)"
| loop_raises: "p_phase s = Running t srv \<Longrightarrow>
    proc_step dotfile s (s\<lparr>p_phase := Terminated (Exit_error (Server_failure msg))\<rparr>)"

inductive reachable :: "env \<Rightarrow> env \<Rightarrow> proc \<Rightarrow> bool" for dotfile :: env and e0 :: env where
  start: "reachable dotfile e0 (init_proc e0)"
| step: "reachable dotfile e0 s \<Longrightarrow> proc_step dotfile s t \<Longrightarrow> reachable dotfile e0 t"

section \<open>The reachable states\<close>

text \<open>Why the process ended: the import raised, \<open>main\<close> raised, or the server loop
  returned or raised after \<open>main\<close> chose a transport.\<close>

definition exit_justified :: "env \<Rightarrow> env \<Rightarrow> proc \<Rightarrow> exit_status \<Rightarrow> bool" where
  "exit_justified d e0 s x \<longleftrightarrow>
     (\<exists>err. module_init d e0 = Inl err \<and> x = Exit_error err \<and> p_log s = [])
     \<or> (\<exists>srv err. module_init d e0 = Inr (p_env s, srv) \<and> main_py (p_env s) = (p_log s, Inl err)
          \<and> x = Exit_error err)
     \<or> (\<exists>srv t. module_init d e0 = Inr (p_env s, srv) \<and> main_py (p_env s) = (p_log s, Inr t)
          \<and> (x = Exit_ok \<or> (\<exists>m. x = Exit_error (Server_failure m))))"

definition proc_inv :: "env \<Rightarrow> env \<Rightarrow> proc \<Rightarrow> bool" where
  "proc_inv d e0 s \<longleftrightarrow>
     (case p_phase s of
        Unstarted \<Rightarrow> p_env s = e0 \<and> p_log s = []
      | Imported srv \<Rightarrow> module_init d e0 = Inr (p_env s, srv) \<and> p_log s = []
      | Running t srv \<Rightarrow> module_init d e0 = Inr (p_env s, srv) \<and> main_py (p_env s) = (p_log s, Inr t)
      | Terminated x \<Rightarrow> exit_justified d e0 s x)"

lemma proc_inv_init: "proc_inv d e0 (init_proc e0)"
  by (simp add: proc_inv_def init_proc_def)

lemma proc_step_inv: "proc_step d s t \<Longrightarrow> proc_inv d e0 s \<Longrightarrow> proc_inv d e0 t"
proof (induction rule: proc_step.induct)
  case (import_ok s e srv)
  then show ?case by (simp add: proc_inv_def)
next
  case (import_fail s err)
  then show ?case by (simp add: proc_inv_def exit_justified_def)
next
  case (main_run s srv logs t)
  then show ?case by (simp add: proc_inv_def)
next
  case (main_fail s srv logs err)
  then show ?case by (auto simp: proc_inv_def exit_justified_def)
next
  case (loop_returns s t srv)
  then show ?case by (auto simp: proc_inv_def exit_justified_def)
next
  case (loop_raises s t srv msg)
  then show ?case by (auto simp: proc_inv_def exit_justified_def)
qed

lemma reachable_inv: "reachable d e0 s \<Longrightarrow> proc_inv d e0 s"
proof (induction rule: reachable.induct)
  case start
  show ?case by (rule proc_inv_init)
next
  case (step s t)
  then show ?case using proc_step_inv by blast
qed

lemma module_init_eq_Inr:
  "module_init d e0 = Inr (e, srv) \<longleftrightarrow>
     e = load_dotenv d e0
     \<and> (\<exists>port. py_int (os_getenv e ''MCP_PORT'' ''8000'') = Inr port \<and> build_server port = Inr srv)"
  by (auto simp: module_init_def Let_def err_bind_eq_Inr)

text \<open>The server that lines 57-112 build for a port.\<close>

definition started_server :: "int \<Rightarrow> server" where
  "started_server port =
     add_resource ((fastmcp ''bybit-mcp'' ''0.0.0.0'' port)\<lparr>srv_tools := tool_table registered_tools\<rparr>)
       market_info_resource"

lemma build_server_started [eval_simps]: "build_server port = Inr (started_server port)"
  by (simp add: build_server_eq started_server_def)

lemma srv_port_started [simp]: "srv_port (started_server port) = port"
  by (simp add: started_server_def add_resource_def fastmcp_def)

lemma reachable_import_fail:
  "module_init d e0 = Inl err \<Longrightarrow>
     reachable d e0 \<lparr>p_env = e0, p_log = [], p_phase = Terminated (Exit_error err)\<rparr>"
proof -
  assume "module_init d e0 = Inl err"
  then have "proc_step d (init_proc e0) ((init_proc e0)\<lparr>p_phase := Terminated (Exit_error err)\<rparr>)"
    by (intro proc_step.import_fail) (simp_all add: init_proc_def)
  from reachable.step [OF reachable.start this] show ?thesis by (simp add: init_proc_def)
qed

lemma reachable_imported:
  "module_init d e0 = Inr (e, srv) \<Longrightarrow> reachable d e0 \<lparr>p_env = e, p_log = [], p_phase = Imported srv\<rparr>"
proof -
  assume "module_init d e0 = Inr (e, srv)"
  then have "proc_step d (init_proc e0) ((init_proc e0)\<lparr>p_env := e, p_phase := Imported srv\<rparr>)"
    by (intro proc_step.import_ok) (simp_all add: init_proc_def)
  from reachable.step [OF reachable.start this] show ?thesis by (simp add: init_proc_def)
qed

lemma reachable_main:
  assumes "module_init d e0 = Inr (e, srv)"
  shows "main_py e = (logs, Inr t) \<Longrightarrow>
           reachable d e0 \<lparr>p_env = e, p_log = logs, p_phase = Running t srv\<rparr>"
    and "main_py e = (logs, Inl err) \<Longrightarrow>
           reachable d e0 \<lparr>p_env = e, p_log = logs, p_phase = Terminated (Exit_error err)\<rparr>"
  using reachable.step [OF reachable_imported [OF assms] proc_step.main_run, of srv logs t]
    reachable.step [OF reachable_imported [OF assms] proc_step.main_fail, of srv logs err]
  by simp_all

text \<open>
  C3: in every reachable running state the server was built from the configured port
  with every tool and the resource registered, it runs the transport that the
  lower-cased \<open>MCP_TRANSPORT\<close> names, and exactly one line has been logged, naming that
  setting.
\<close>

theorem running_state:
  assumes "reachable d e0 s" and "p_phase s = Running t srv"
  shows "let e = load_dotenv d e0 in
           p_env s = e
           \<and> (\<exists>port. py_int (os_getenv e ''MCP_PORT'' ''8000'') = Inr port \<and> build_server port = Inr srv)
           \<and> select_transport (transport_setting e) = Inr t
           \<and> p_log s = [log_info (startup_message (transport_setting e))]"
  using reachable_inv [OF assms(1)] assms(2)
  by (auto simp: proc_inv_def module_init_eq_Inr main_py_def Let_def)

text \<open>
  C2: with an unsupported \<open>MCP_TRANSPORT\<close> (after lower-casing) no server loop is ever
  entered: no reachable state of the process is running.
\<close>

theorem unsupported_transport_never_runs:
  assumes "reachable d e0 s"
    and "transport_setting (load_dotenv d e0) \<notin> {''stdio'', ''sse''}"
  shows "\<not> (\<exists>t srv. p_phase s = Running t srv)"
proof
  assume "\<exists>t srv. p_phase s = Running t srv"
  then obtain t srv where run: "p_phase s = Running t srv" by blast
  with reachable_inv [OF assms(1)] have "module_init d e0 = Inr (p_env s, srv)"
    and main: "main_py (p_env s) = (p_log s, Inr t)"
    by (simp_all add: proc_inv_def)
  then have "p_env s = load_dotenv d e0" by (simp add: module_init_eq_Inr)
  with main have "select_transport (transport_setting (load_dotenv d e0)) = Inr t"
    by (simp add: main_py_def Let_def)
  with assms(2) show False by (simp add: select_transport_def split: if_splits)
qed

text \<open>
  C7: a malformed \<open>MCP_PORT\<close> stops the process during the import, before \<open>main\<close>
  reads \<open>MCP_TRANSPORT\<close> or logs anything, whatever the transport: even the stdio
  transport, which never uses the port, does not start.
\<close>

theorem bad_port_stops_import:
  assumes "reachable d e0 s"
    and "py_int (os_getenv (load_dotenv d e0) ''MCP_PORT'' ''8000'') = Inl err"
  shows "p_log s = [] \<and> (p_phase s = Unstarted \<or> p_phase s = Terminated (Exit_error err))"
proof -
  have mi: "module_init d e0 = Inl err" using assms(2) by (simp add: module_init_def)
  then have "\<And>e srv. module_init d e0 \<noteq> Inr (e, srv)" by simp
  with reachable_inv [OF assms(1)] mi show ?thesis
    by (auto simp: proc_inv_def exit_justified_def split: phase.splits)
qed

text \<open>
  C4: with a well-formed \<open>MCP_PORT\<close> and a supported \<open>MCP_TRANSPORT\<close> the process
  reaches the server loop of that transport, on a server bound to that port, after
  logging the start-up line.
\<close>

theorem process_reaches_running:
  assumes port: "py_int (os_getenv (load_dotenv d e0) ''MCP_PORT'' ''8000'') = Inr port"
    and tr: "select_transport (transport_setting (load_dotenv d e0)) = Inr t"
  shows "\<exists>srv. build_server port = Inr srv \<and> srv_port srv = port
           \<and> reachable d e0 \<lparr>p_env = load_dotenv d e0,
                            p_log = [log_info (startup_message (transport_setting (load_dotenv d e0)))],
                            p_phase = Running t srv\<rparr>"
proof -
  have mi: "module_init d e0 = Inr (load_dotenv d e0, started_server port)"
    using port by (simp add: module_init_def build_server_started)
  have "main_py (load_dotenv d e0) =
          ([log_info (startup_message (transport_setting (load_dotenv d e0)))], Inr t)"
    using tr by (simp add: main_py_def Let_def)
  from reachable_main(1) [OF mi this] show ?thesis
    by (intro exI [of _ "started_server port"]) (simp add: build_server_started)
qed

text \<open>
  C13: the process exits with status 0 only when the configuration was good: the port
  parsed and the lower-cased transport was \<open>stdio\<close> or \<open>sse\<close>, and that server loop
  returned. Every configuration error ends with status 1.
\<close>

theorem exit_zero_only_if_configured:
  assumes "reachable d e0 s" and "p_phase s = Terminated x" and "exit_code x = 0"
  shows "(\<exists>port. py_int (os_getenv (load_dotenv d e0) ''MCP_PORT'' ''8000'') = Inr port)
         \<and> (\<exists>t. select_transport (transport_setting (load_dotenv d e0)) = Inr t)"
proof -
  have x: "x = Exit_ok" using assms(3) by (cases x) simp_all
  with reachable_inv [OF assms(1)] assms(2)
  obtain srv t where "module_init d e0 = Inr (p_env s, srv)" and "main_py (p_env s) = (p_log s, Inr t)"
    by (auto simp: proc_inv_def exit_justified_def)
  then show ?thesis by (auto simp: module_init_eq_Inr main_py_def Let_def)
qed

section \<open>Witnesses\<close>

abbreviation env_foo :: env where
  "env_foo \<equiv> [''MCP_TRANSPORT'' \<mapsto> ''foo'']"

abbreviation env_sse_9001 :: env where
  "env_sse_9001 \<equiv> [''MCP_TRANSPORT'' \<mapsto> ''sse'', ''MCP_PORT'' \<mapsto> ''9001'']"

abbreviation env_bad_port :: env where
  "env_bad_port \<equiv> [''MCP_PORT'' \<mapsto> ''80a'']"

lemma module_init_foo:
  "module_init Map.empty env_foo = Inr (env_foo, started_server 8000)"
  by (simp add: module_init_def eval_simps)

lemma module_init_sse_9001:
  "module_init Map.empty env_sse_9001 = Inr (env_sse_9001, started_server 9001)"
  by (simp add: module_init_def eval_simps)

theorem unsupported_transport_never_runs_witness:
  "reachable Map.empty env_foo
     \<lparr>p_env = env_foo, p_log = [log_info (startup_message ''foo'')],
      p_phase = Terminated (Exit_error (ValueError ''Unsupported MCP_TRANSPORT mode: foo''))\<rparr>
   \<and> transport_setting (load_dotenv Map.empty env_foo) \<notin> {''stdio'', ''sse''}
   \<and> \<not> (\<exists>t srv. p_phase
          \<lparr>p_env = env_foo, p_log = [log_info (startup_message ''foo'')],
           p_phase = Terminated (Exit_error (ValueError ''Unsupported MCP_TRANSPORT mode: foo''))\<rparr>
          = Running t srv)"
proof -
  have r: "reachable Map.empty env_foo
     \<lparr>p_env = env_foo, p_log = [log_info (startup_message ''foo'')],
      p_phase = Terminated (Exit_error (ValueError ''Unsupported MCP_TRANSPORT mode: foo''))\<rparr>"
    by (rule reachable_main(2) [OF module_init_foo]) (simp add: eval_simps)
  have t: "transport_setting (load_dotenv Map.empty env_foo) \<notin> {''stdio'', ''sse''}"
    by (simp add: eval_simps)
  show ?thesis using r t unsupported_transport_never_runs [OF r t] by blast
qed

theorem process_reaches_running_witness:
  "py_int (os_getenv (load_dotenv Map.empty env_sse_9001) ''MCP_PORT'' ''8000'') = Inr 9001
   \<and> select_transport (transport_setting (load_dotenv Map.empty env_sse_9001)) = Inr Sse
   \<and> (\<exists>srv. build_server 9001 = Inr srv \<and> srv_port srv = 9001
        \<and> reachable Map.empty env_sse_9001
            \<lparr>p_env = load_dotenv Map.empty env_sse_9001,
             p_log = [log_info (startup_message (transport_setting (load_dotenv Map.empty env_sse_9001)))],
             p_phase = Running Sse srv\<rparr>)"
proof -
  have p: "py_int (os_getenv (load_dotenv Map.empty env_sse_9001) ''MCP_PORT'' ''8000'') = Inr 9001"
    by (simp add: eval_simps)
  have t: "select_transport (transport_setting (load_dotenv Map.empty env_sse_9001)) = Inr Sse"
    by (simp add: eval_simps)
  show ?thesis using p t process_reaches_running [OF p t] by blast
qed

theorem running_state_witness:
  "reachable Map.empty env_sse_9001
     \<lparr>p_env = env_sse_9001, p_log = [log_info (startup_message ''sse'')],
      p_phase = Running Sse (started_server 9001)\<rparr>
   \<and> (let e = load_dotenv Map.empty env_sse_9001 in
        p_env \<lparr>p_env = env_sse_9001, p_log = [log_info (startup_message ''sse'')],
               p_phase = Running Sse (started_server 9001)\<rparr> = e
        \<and> (\<exists>port. py_int (os_getenv e ''MCP_PORT'' ''8000'') = Inr port
              \<and> build_server port = Inr (started_server 9001))
        \<and> select_transport (transport_setting e) = Inr Sse
        \<and> p_log \<lparr>p_env = env_sse_9001, p_log = [log_info (startup_message ''sse'')],
                 p_phase = Running Sse (started_server 9001)\<rparr>
            = [log_info (startup_message (transport_setting e))])"
proof -
  have r: "reachable Map.empty env_sse_9001
     \<lparr>p_env = env_sse_9001, p_log = [log_info (startup_message ''sse'')],
      p_phase = Running Sse (started_server 9001)\<rparr>"
    by (rule reachable_main(1) [OF module_init_sse_9001]) (simp add: eval_simps)
  show ?thesis using r running_state [OF r] by simp
qed

theorem bad_port_stops_import_witness:
  "reachable Map.empty env_bad_port
     \<lparr>p_env = env_bad_port, p_log = [], p_phase = Terminated (Exit_error Int_invalid_literal)\<rparr>
   \<and> py_int (os_getenv (load_dotenv Map.empty env_bad_port) ''MCP_PORT'' ''8000'') = Inl Int_invalid_literal
   \<and> [] = ([] :: string list)
   \<and> Terminated (Exit_error Int_invalid_literal) = Terminated (Exit_error Int_invalid_literal)"
proof -
  have p: "py_int (os_getenv (load_dotenv Map.empty env_bad_port) ''MCP_PORT'' ''8000'') = Inl Int_invalid_literal"
    by (simp add: eval_simps)
  have r: "reachable Map.empty env_bad_port
     \<lparr>p_env = env_bad_port, p_log = [], p_phase = Terminated (Exit_error Int_invalid_literal)\<rparr>"
    using p by (intro reachable_import_fail) (simp add: module_init_def)
  show ?thesis using r p bad_port_stops_import [OF r p] by simp
qed

theorem exit_zero_only_if_configured_witness:
  "reachable Map.empty env_sse_9001
     \<lparr>p_env = env_sse_9001, p_log = [log_info (startup_message ''sse'')], p_phase = Terminated Exit_ok\<rparr>
   \<and> exit_code Exit_ok = 0
   \<and> py_int (os_getenv (load_dotenv Map.empty env_sse_9001) ''MCP_PORT'' ''8000'') = Inr 9001
   \<and> select_transport (transport_setting (load_dotenv Map.empty env_sse_9001)) = Inr Sse"
proof -
  have r0: "reachable Map.empty env_sse_9001
     \<lparr>p_env = env_sse_9001, p_log = [log_info (startup_message ''sse'')],
      p_phase = Running Sse (started_server 9001)\<rparr>"
    by (rule reachable_main(1) [OF module_init_sse_9001]) (simp add: eval_simps)
  have "proc_step Map.empty
     \<lparr>p_env = env_sse_9001, p_log = [log_info (startup_message ''sse'')],
      p_phase = Running Sse (started_server 9001)\<rparr>
     (\<lparr>p_env = env_sse_9001, p_log = [log_info (startup_message ''sse'')],
      p_phase = Running Sse (started_server 9001)\<rparr>\<lparr>p_phase := Terminated Exit_ok\<rparr>)"
    by (rule proc_step.loop_returns) simp
  from reachable.step [OF r0 this] have r: "reachable Map.empty env_sse_9001
     \<lparr>p_env = env_sse_9001, p_log = [log_info (startup_message ''sse'')], p_phase = Terminated Exit_ok\<rparr>"
    by simp
  have "exit_code Exit_ok = 0" by simp
  from exit_zero_only_if_configured [OF r _ this] have
    "(\<exists>port. py_int (os_getenv (load_dotenv Map.empty env_sse_9001) ''MCP_PORT'' ''8000'') = Inr port)
     \<and> (\<exists>t. select_transport (transport_setting (load_dotenv Map.empty env_sse_9001)) = Inr t)"
    by simp
  moreover have "py_int (os_getenv (load_dotenv Map.empty env_sse_9001) ''MCP_PORT'' ''8000'') = Inr 9001"
    "select_transport (transport_setting (load_dotenv Map.empty env_sse_9001)) = Inr Sse"
    by (simp_all add: eval_simps)
  ultimately show ?thesis using r by simp
qed

end
