(* ===== verification/Spec2Isabelle.thy ===== *)
theory Spec2Isabelle
  imports Process
begin

text \<open>
  \<^bold>\<open>Verification development for bybit-mcp.\<close>

  The program is one module, \<open>src/src/bybit_mcp/main.py\<close>, the entry point of an MCP
  (Model Context Protocol) server that exposes Bybit v5 REST endpoints as tools. Its
  parts, in the order the module runs them:
  \<^item> the configuration: \<open>load_dotenv()\<close> (line 51), \<open>int(os.getenv("MCP_PORT", "8000"))\<close>
    (line 56) and \<open>os.getenv("MCP_TRANSPORT", "stdio").lower()\<close> (line 115);
  \<^item> the tool registry: a \<open>FastMCP\<close> server named \<open>bybit-mcp\<close> on host \<open>0.0.0.0\<close>
    (line 57), the 36 endpoint functions imported from the market, position and
    trade modules (lines 8-49) registered with \<open>add_tool\<close> (lines 60-99), and the
    resource \<open>bybit://market/info\<close> (lines 101-112);
  \<^item> the transport selector \<open>main\<close> (lines 114-122): log a start-up line, then run
    the stdio or SSE server loop or raise \<open>ValueError\<close>;
  \<^item> the process: importing the module, then \<open>cli_main\<close> (lines 125-130) running
    \<open>main\<close> under \<open>asyncio.run\<close>, and the exit status.

  Theories and what they model:
  \<^item> \<open>Prelude\<close>: the environment \<open>env\<close> (a partial map for \<open>os.environ\<close>), the
    exceptions as the datatype \<open>py_error\<close>, and the error monad \<open>err_bind\<close> on
    \<open>py_error + 'a\<close> that sequences module-level statements.
  \<^item> \<open>Py_Builtins\<close>: \<open>str.lower\<close> on Latin-1 code points (\<open>py_lower\<close>),
    \<open>os.getenv\<close> (\<open>os_getenv\<close>) and \<open>load_dotenv\<close> without override (\<open>load_dotenv\<close>;
    the location of the \<open>.env\<close> file is abstracted into its contents \<open>dotfile\<close>).
  \<^item> \<open>Py_Int\<close>: CPython's \<open>int(str)\<close> in base 10 as \<open>py_int\<close>, translated from
    \<open>PyLong_FromUnicodeObject\<close> / \<open>long_from_string_base\<close>: Unicode whitespace,
    sign, digits with single underscores between them, trailing whitespace, the NUL
    check and the 4300-digit limit of \<open>sys.int_info.default_max_str_digits\<close>. Its
    grammar-level specification is the inductive \<open>digitpart\<close> with \<open>int_literal\<close>
    (accepted literals) and \<open>long_literal\<close> (literals beyond the limit). Decimal
    printing \<open>decimal_repr\<close> is \<open>str(int)\<close>.
  \<^item> \<open>Tool_Registry\<close>: the endpoints as the enumerated datatype \<open>endpoint\<close>, their
    \<open>__name__\<close>s, the FastMCP registry (\<open>server\<close> record, \<open>add_tool\<close>,
    \<open>add_resource\<close>, \<open>call_tool\<close>, \<open>read_resource\<close>), the registration lists
    \<open>market_tools\<close>, \<open>trading_tools\<close>, \<open>position_tools\<close> in source order,
    \<open>market_info\<close> and \<open>build_server\<close> (lines 57-112).
  \<^item> \<open>Transport\<close>: \<open>transport_setting\<close>, \<open>log_info\<close>, \<open>startup_message\<close>,
    \<open>select_transport\<close> and \<open>main_py\<close> (lines 114-122), which returns the log lines
    and either the chosen transport or the exception.
  \<^item> \<open>Process\<close>: \<open>module_init\<close> (the import, lines 51-112), the process state
    \<open>proc\<close> (environment, log, phase), the step relation \<open>proc_step\<close> with its
    \<open>reachable\<close> states, and the exit status \<open>exit_code\<close>.
  \<^item> this theory: what the whole program does with an arbitrary port number.

  Lemma groups:
  \<^item> \<open>Py_Int\<close>: \<open>py_int\<close> accepts exactly the literals of the grammar with their value
    (refinement) and reports each of its two errors exactly for the strings the
    grammar assigns it; \<open>str\<close> then \<open>int\<close> is the identity below the digit limit and
    raises above it (round trip and bounds); the parsed value is bounded by the
    limit; underscores are pure separators; the syntax is checked before the limit.
  \<^item> \<open>Tool_Registry\<close>: the exact effect of a sequence of registrations; the built
    server dispatches each endpoint's name to that endpoint and no other name; its
    resource lists exactly the registered market endpoints.
  \<^item> \<open>Transport\<close>: \<open>stdio\<close> and \<open>sse\<close> in any mix of cases select their transport.
  \<^item> \<open>Process\<close>: an invariant of the reachable states by rule induction (every
    running state comes from a good port and a supported transport, every
    termination has its cause), safety (an unsupported transport never runs, a bad
    port stops the import before anything is logged, exit status 0 only for a good
    configuration) and liveness (a good configuration reaches its server loop).
  \<^item> this theory: every integer whose numeral is within the digit limit is accepted
    as the port, with no range check.

  Bounds and fuel: no fuel is used. Every loop of the source is structural recursion
  on a string or a list, and the process has three steps at most by the shape of its
  step relation. The only numeric bound is the digit limit 4300 of \<open>int()\<close>, modelled
  as CPython 3.12 has it by default (\<open>PYTHONINTMAXSTRDIGITS\<close> is not modelled).

  Not modelled: the bodies of the 36 endpoints (the market, position and trade modules
  are not part of the sources; each endpoint is an opaque constructor, named by the
  name it is imported under, and a tool call returns which endpoint it invokes); the
  Bybit HTTP client those modules use; the \<open>mcp\<close> package (FastMCP's request handling,
  wire protocol, JSON schemas and argument validation, and the stdio/SSE server
  loops), which is not part of the repository: its registry is modelled from the
  contract the spec gives it, and its server loop by its two outcomes, return or
  raise; the \<open>__main__\<close> guard of lines 129-130 (the process is the program run as a
  script); the logging handler beyond the text of the record; an interrupt of the
  server loop, which ends the process by SIGINT rather than with status 1; code points
  above U+00FF in \<open>str.lower\<close> and \<open>int()\<close>.
\<close>

section \<open>Any port number is accepted\<close>

text \<open>
  C16: \<open>MCP_PORT\<close> is not range-checked: for every integer \<open>n\<close> whose numeral is within
  the digit limit (negative, zero or above 65535 included), setting \<open>MCP_PORT\<close> to
  \<open>str(n)\<close> in the environment or the \<open>.env\<close> file, with a supported transport, brings
  the process to that transport's server loop on a server bound to port \<open>n\<close>.
\<close>

theorem any_port_accepted:
  assumes n: "\<bar>n\<bar> < 10 ^ py_int_max_str_digits"
    and port: "load_dotenv d e0 ''MCP_PORT'' = Some (decimal_repr n)"
    and tr: "select_transport (transport_setting (load_dotenv d e0)) = Inr t"
  shows "\<exists>srv. srv_port srv = n
           \<and> reachable d e0 \<lparr>p_env = load_dotenv d e0,
                            p_log = [log_info (startup_message (transport_setting (load_dotenv d e0)))],
                            p_phase = Running t srv\<rparr>"
proof -
  have "nat \<bar>n\<bar> < 10 ^ py_int_max_str_digits" using n by (simp add: nat_less_iff)
  then have "length (nat_digits (nat \<bar>n\<bar>)) \<le> py_int_max_str_digits"
    by (rule length_nat_digits_le) (simp add: py_int_max_str_digits_def)
  then have "py_int (decimal_repr n) = Inr n" by (simp add: py_int_decimal_repr_eq Let_def)
  then have mi: "module_init d e0 = Inr (load_dotenv d e0, started_server n)"
    using port by (simp add: module_init_def build_server_started)
  have "main_py (load_dotenv d e0) =
          ([log_info (startup_message (transport_setting (load_dotenv d e0)))], Inr t)"
    using tr by (simp add: main_py_def Let_def)
  from reachable_main(1) [OF mi this] show ?thesis
    by (intro exI [of _ "started_server n"]) simp
qed

theorem any_port_accepted_witness:
  "\<bar>-1\<bar> < (10::int) ^ py_int_max_str_digits
   \<and> load_dotenv Map.empty [''MCP_PORT'' \<mapsto> decimal_repr (-1), ''MCP_TRANSPORT'' \<mapsto> ''sse'']
       ''MCP_PORT'' = Some (decimal_repr (-1))
   \<and> select_transport (transport_setting
       (load_dotenv Map.empty [''MCP_PORT'' \<mapsto> decimal_repr (-1), ''MCP_TRANSPORT'' \<mapsto> ''sse''])) = Inr Sse
   \<and> (\<exists>srv. srv_port srv = -1
        \<and> reachable Map.empty [''MCP_PORT'' \<mapsto> decimal_repr (-1), ''MCP_TRANSPORT'' \<mapsto> ''sse'']
            \<lparr>p_env = load_dotenv Map.empty [''MCP_PORT'' \<mapsto> decimal_repr (-1), ''MCP_TRANSPORT'' \<mapsto> ''sse''],
             p_log = [log_info (startup_message (transport_setting
                       (load_dotenv Map.empty [''MCP_PORT'' \<mapsto> decimal_repr (-1), ''MCP_TRANSPORT'' \<mapsto> ''sse''])))],
             p_phase = Running Sse srv\<rparr>)"
proof -
  have n: "\<bar>-1\<bar> < (10::int) ^ py_int_max_str_digits"
    using digit_limit_above_8000 by simp
  have p: "load_dotenv Map.empty [''MCP_PORT'' \<mapsto> decimal_repr (-1), ''MCP_TRANSPORT'' \<mapsto> ''sse'']
       ''MCP_PORT'' = Some (decimal_repr (-1))"
    by (simp add: load_dotenv_def)
  have t: "select_transport (transport_setting
       (load_dotenv Map.empty [''MCP_PORT'' \<mapsto> decimal_repr (-1), ''MCP_TRANSPORT'' \<mapsto> ''sse''])) = Inr Sse"
    by (simp add: eval_simps)
  show ?thesis using n p t any_port_accepted [OF n p t] by blast
qed

end
